theory Spec2Isabelle
  imports Main "HOL-Library.Sublist" "HOL-Library.Word" "HOL-Library.AList"
begin

section \<open>Values, exceptions and the outside world\<close>

text \<open>
  The program (\<^verbatim>\<open>main.py\<close>) works on what \<^verbatim>\<open>json.load\<close> and
  \<^verbatim>\<open>json.loads\<close> return: \<^verbatim>\<open>None\<close>, booleans, integers, floats, strings, lists
  and dictionaries. A float is kept as its 64 IEEE bits, which is all that Python's
  truth test needs. A dictionary is the list of its items in insertion order; keys are
  looked up with \<open>map_of\<close>.
\<close>

datatype json =
    JNull
  | JBool bool
  | JInt int
  | JFloat "64 word"
  | JStr string
  | JArr "json list"
  | JObj "(string \<times> json) list"

text \<open>The exceptions that the program can meet, whether it catches them or not.\<close>

datatype py_error =
    RequestException string
  | JSONDecodeError string
  | FileNotFoundError
  | NotADirectoryError
  | IsADirectoryError
  | UnicodeDecodeError
  | OSError
  | BadZipFile string
  | AttributeError
  | TypeError
  | KeyError string

type_synonym path = "string list"

text \<open>
  A path is the list of its components (plain names), relative to the working
  directory; \<^verbatim>\<open>os.path.join(p, name)\<close> is \<open>p @ [name]\<close> and the empty list is the
  empty string, which names no file.
\<close>

record response =
  resp_text :: string
  http_error :: "string option"

text \<open>
  \<open>http_error\<close> is the message of the \<^verbatim>\<open>HTTPError\<close> that
  \<^verbatim>\<open>response.raise_for_status()\<close> raises, \<open>None\<close> for a status below 400.
\<close>

record ydl_opts =
  format :: string
  outtmpl :: string
  postprocessors :: "(string \<times> string) list list option"
  merge_output_format :: "string option"
  ffmpeg_location :: path
  quiet :: bool

text \<open>
  The libraries the program calls are parameters of the model: \<^verbatim>\<open>requests.get\<close>,
  BeautifulSoup's \<^verbatim>\<open>find_all('script')\<close> (the \<^verbatim>\<open>.string\<close> of every script element, in
  document order), \<^verbatim>\<open>json.loads\<close>, \<^verbatim>\<open>zipfile\<close> (the file members of an archive),
  \<^verbatim>\<open>yt_dlp.YoutubeDL(opts).download([link])\<close> (\<open>Some\<close> error text when it raises),
  Python's \<^verbatim>\<open>str()\<close> of a value that is not a string, a boolean or \<^verbatim>\<open>None\<close>, and the
  decoding of a file's bytes in the encoding of the locale, which a file opened in text
  mode goes through when it is read (\<open>None\<close> where \<^verbatim>\<open>UnicodeDecodeError\<close> is raised).
  \<open>Inl\<close> carries the text of the exception raised.
\<close>

record env =
  requests_get :: "json \<Rightarrow> string + response"
  script_strings :: "string \<Rightarrow> string option list"
  json_loads :: "string \<Rightarrow> string + json"
  zip_members :: "string \<Rightarrow> string + (path \<times> string) list"
  ydl_download :: "ydl_opts \<Rightarrow> string \<Rightarrow> string option"
  py_str :: "json \<Rightarrow> string"
  decode_text :: "string \<Rightarrow> string option"

subsection \<open>Python's dynamic operations on parsed JSON\<close>

definition float_is_zero :: "64 word \<Rightarrow> bool" where
  "float_is_zero w = (take_bit 63 w = 0)"

fun truthy :: "json \<Rightarrow> bool" where
  "truthy JNull = False"
| "truthy (JBool b) = b"
| "truthy (JInt i) = (i \<noteq> 0)"
| "truthy (JFloat w) = (\<not> float_is_zero w)"
| "truthy (JStr s) = (s \<noteq> [])"
| "truthy (JArr xs) = (xs \<noteq> [])"
| "truthy (JObj kvs) = (kvs \<noteq> [])"

text \<open>\<^verbatim>\<open>d.get(k, default)\<close>: only a dictionary has the method.\<close>

fun py_get :: "json \<Rightarrow> string \<Rightarrow> json \<Rightarrow> py_error + json" where
  "py_get (JObj kvs) k d = Inr (case map_of kvs k of None \<Rightarrow> d | Some v \<Rightarrow> v)"
| "py_get _ k d = Inl AttributeError"

text \<open>\<^verbatim>\<open>d[k]\<close> with a string key \<open>k\<close>.\<close>

fun py_subscript :: "json \<Rightarrow> string \<Rightarrow> py_error + json" where
  "py_subscript (JObj kvs) k = (case map_of kvs k of None \<Rightarrow> Inl (KeyError k) | Some v \<Rightarrow> Inr v)"
| "py_subscript _ k = Inl TypeError"

text \<open>
  \<^verbatim>\<open>for x in v\<close>: a list gives its elements, a dictionary its keys, a string its
  characters; nothing else is iterable.
\<close>

fun py_iter :: "json \<Rightarrow> py_error + json list" where
  "py_iter (JArr xs) = Inr xs"
| "py_iter (JObj kvs) = Inr (map (\<lambda>kv. JStr (fst kv)) kvs)"
| "py_iter (JStr s) = Inr (map (\<lambda>c. JStr [c]) s)"
| "py_iter _ = Inl TypeError"

text \<open>A value inside an f-string.\<close>

fun fstr :: "env \<Rightarrow> json \<Rightarrow> string" where
  "fstr E (JStr s) = s"
| "fstr E JNull = ''None''"
| "fstr E (JBool b) = (if b then ''True'' else ''False'')"
| "fstr E v = py_str E v"

definition err_bind :: "'e + 'a \<Rightarrow> ('a \<Rightarrow> 'e + 'b) \<Rightarrow> 'e + 'b" where
  "err_bind m f = (case m of Inl e \<Rightarrow> Inl e | Inr a \<Rightarrow> f a)"

section \<open>Link extraction\<close>

subsection \<open>The pattern \<^verbatim>\<open>var ytInitialData = ({.*?});\<close>\<close>

definition newline :: char where
  "newline = CHR 0x0A"

definition marker :: string where
  "marker = ''ytInitialData''"

definition assignment_head :: string where
  "assignment_head = ''var ytInitialData = {''"

text \<open>\<^verbatim>\<open>needle in haystack\<close> on strings.\<close>

fun contains :: "string \<Rightarrow> string \<Rightarrow> bool" where
  "contains n [] = (n = [])"
| "contains n (c # cs) = (prefix n (c # cs) \<or> contains n cs)"

text \<open>
  \<^verbatim>\<open>.*?};\<close> at the head of a string: the characters that the lazy \<^verbatim>\<open>.*?\<close>
  takes, the fewest possible; \<^verbatim>\<open>.\<close> does not match a newline.
\<close>

fun lazy_until :: "string \<Rightarrow> string option" where
  "lazy_until [] = None"
| "lazy_until (c # cs) =
     (if prefix ''};'' (c # cs) then Some []
      else if c = newline then None
      else map_option ((#) c) (lazy_until cs))"

text \<open>The whole pattern at the head of a string; the result is group 1.\<close>

definition match_at :: "string \<Rightarrow> string option" where
  "match_at s =
     (if prefix assignment_head s
      then map_option (\<lambda>b. ''{'' @ b @ ''}'') (lazy_until (drop (length assignment_head) s))
      else None)"

text \<open>\<^verbatim>\<open>re.search\<close>: the leftmost position where the pattern matches.\<close>

fun re_search :: "string \<Rightarrow> string option" where
  "re_search [] = match_at []"
| "re_search (c # cs) =
     (case match_at (c # cs) of Some g \<Rightarrow> Some g | None \<Rightarrow> re_search cs)"

subsection \<open>The loop over the script elements (lines 77 to 84)\<close>

fun find_playlist_data :: "string option list \<Rightarrow> string option" where
  "find_playlist_data [] = None"
| "find_playlist_data (tag # tags) =
     (case tag of
        None \<Rightarrow> find_playlist_data tags
      | Some s \<Rightarrow>
          if s \<noteq> [] \<and> contains marker s
          then (case re_search s of
                  Some g \<Rightarrow> Some g
                | None \<Rightarrow> find_playlist_data tags)
          else find_playlist_data tags)"

subsection \<open>Navigation and the loop over the items (lines 91 to 110)\<close>

record video_entry =
  title :: json
  link :: string

definition playlist_items :: "json \<Rightarrow> py_error + json" where
  "playlist_items data =
     err_bind (py_get data ''contents'' (JObj [])) (\<lambda>a.
     err_bind (py_get a ''twoColumnWatchNextResults'' (JObj [])) (\<lambda>b.
     err_bind (py_get b ''playlist'' (JObj [])) (\<lambda>c.
     err_bind (py_get c ''playlist'' (JObj [])) (\<lambda>d.
     py_get d ''contents'' (JArr [])))))"

definition watch_prefix :: string where
  "watch_prefix = ''https://www.youtube.com/watch?v=''"

text \<open>One pass of the loop body: the entry to append, if any.\<close>

definition item_entry :: "env \<Rightarrow> json \<Rightarrow> py_error + video_entry option" where
  "item_entry E item =
     err_bind (py_get item ''playlistPanelVideoRenderer'' (JObj [])) (\<lambda>video_renderer.
     err_bind (py_get video_renderer ''title'' (JObj [])) (\<lambda>t.
     err_bind (py_get t ''simpleText'' (JStr ''No Title'')) (\<lambda>title.
     err_bind (py_get video_renderer ''navigationEndpoint'' (JObj [])) (\<lambda>n.
     err_bind (py_get n ''watchEndpoint'' (JObj [])) (\<lambda>e.
     err_bind (py_get e ''videoId'' (JStr [])) (\<lambda>video_id.
       let link = (if truthy video_id then Some (watch_prefix @ fstr E video_id) else None)
       in Inr (case link of
                 None \<Rightarrow> None
               | Some l \<Rightarrow> if l \<noteq> [] then Some \<lparr>title = title, link = l\<rparr> else None)))))))"

fun collect_videos :: "env \<Rightarrow> json list \<Rightarrow> video_entry list \<Rightarrow> py_error + video_entry list" where
  "collect_videos E [] videos = Inr videos"
| "collect_videos E (item # items) videos =
     (case item_entry E item of
        Inl e \<Rightarrow> Inl e
      | Inr None \<Rightarrow> collect_videos E items videos
      | Inr (Some v) \<Rightarrow> collect_videos E items (videos @ [v]))"

definition videos_of_data :: "env \<Rightarrow> json \<Rightarrow> py_error + video_entry list" where
  "videos_of_data E data =
     err_bind (playlist_items data) (\<lambda>items.
     err_bind (py_iter items) (\<lambda>its. collect_videos E its []))"

section \<open>The file system and the trace of outside calls\<close>

datatype fsnode = File string | Dir "(string \<times> fsnode) list"

text \<open>
  A directory lists its entries in the order \<^verbatim>\<open>os.scandir\<close> gives them. Every call
  that leaves the program is appended to a trace.
\<close>

datatype event =
    Print string
  | Requests_get json
  | Open_read path
  | Open_write path
  | Zip_extractall path
  | Os_remove path
  | Os_makedirs path
  | Ydl_download ydl_opts string

record world =
  fs :: fsnode
  trace :: "event list"

definition emit :: "event \<Rightarrow> world \<Rightarrow> world" where
  "emit e w = w\<lparr>trace := trace w @ [e]\<rparr>"

fun fs_lookup :: "fsnode \<Rightarrow> path \<Rightarrow> fsnode option" where
  "fs_lookup n [] = Some n"
| "fs_lookup (File c) (x # xs) = None"
| "fs_lookup (Dir es) (x # xs) =
     (case map_of es x of None \<Rightarrow> None | Some n \<Rightarrow> fs_lookup n xs)"

text \<open>
  \<^verbatim>\<open>open(p, 'r')\<close>, which gives the bytes of a file: a name that a directory on the way
  does not hold is \<^verbatim>\<open>FileNotFoundError\<close>, a regular file on the way is
  \<^verbatim>\<open>NotADirectoryError\<close>, and a directory at the end is \<^verbatim>\<open>IsADirectoryError\<close>.
\<close>

fun open_at :: "fsnode \<Rightarrow> path \<Rightarrow> py_error + string" where
  "open_at (File c) [] = Inr c"
| "open_at (Dir es) [] = Inl IsADirectoryError"
| "open_at (File c) (x # xs) = Inl NotADirectoryError"
| "open_at (Dir es) (x # xs) =
     (case map_of es x of None \<Rightarrow> Inl FileNotFoundError | Some n \<Rightarrow> open_at n xs)"

definition fs_open_read :: "fsnode \<Rightarrow> path \<Rightarrow> py_error + string" where
  "fs_open_read t p = (if p = [] then Inl FileNotFoundError else open_at t p)"

text \<open>The string of a path, and \<^verbatim>\<open>os.path.join\<close> on strings.\<close>

definition os_sep :: string where
  "os_sep = ''/''"

fun path_str :: "path \<Rightarrow> string" where
  "path_str [] = []"
| "path_str [x] = x"
| "path_str (x # y # ys) = x @ os_sep @ path_str (y # ys)"

definition os_path_join :: "string \<Rightarrow> string \<Rightarrow> string" where
  "os_path_join a b =
     (if prefix os_sep b then b
      else if a = [] \<or> suffix os_sep a then a @ b
      else a @ os_sep @ b)"

text \<open>\<^verbatim>\<open>os.path.exists\<close>.\<close>

definition path_exists :: "fsnode \<Rightarrow> path \<Rightarrow> bool" where
  "path_exists t p = (p \<noteq> [] \<and> fs_lookup t p \<noteq> None)"

fun new_dirs :: "path \<Rightarrow> fsnode" where
  "new_dirs [] = Dir []"
| "new_dirs (x # xs) = Dir [(x, new_dirs xs)]"

fun new_file_at :: "path \<Rightarrow> string \<Rightarrow> fsnode" where
  "new_file_at [] c = File c"
| "new_file_at (x # xs) c = Dir [(x, new_file_at xs c)]"

text \<open>
  The directory part of \<^verbatim>\<open>os.makedirs(p)\<close>, below a node: the missing directories
  are created, and it fails (\<open>None\<close>) where a file is in the way or the last directory
  is already there.
\<close>

fun makedirs_at :: "fsnode \<Rightarrow> path \<Rightarrow> fsnode option" where
  "makedirs_at n [] = None"
| "makedirs_at (File c) (x # xs) = None"
| "makedirs_at (Dir es) (x # xs) =
     (case map_of es x of
        None \<Rightarrow> Some (Dir (es @ [(x, new_dirs xs)]))
      | Some n \<Rightarrow> map_option (\<lambda>n'. Dir (AList.update x n' es)) (makedirs_at n xs))"

definition fs_makedirs :: "fsnode \<Rightarrow> path \<Rightarrow> fsnode option" where
  "fs_makedirs t p = makedirs_at t p"

text \<open>
  Writing a file (\<^verbatim>\<open>open(p, "wb")\<close> and the members that \<^verbatim>\<open>extractall\<close> writes, which
  creates the directories above a member): a file already there is replaced.
\<close>

fun fs_write :: "fsnode \<Rightarrow> path \<Rightarrow> string \<Rightarrow> fsnode option" where
  "fs_write (File c) [] new = Some (File new)"
| "fs_write (Dir es) [] new = None"
| "fs_write (File c) (x # xs) new = None"
| "fs_write (Dir es) (x # xs) new =
     (case map_of es x of
        None \<Rightarrow> Some (Dir (es @ [(x, new_file_at xs new)]))
      | Some n \<Rightarrow> map_option (\<lambda>n'. Dir (AList.update x n' es)) (fs_write n xs new))"

text \<open>\<^verbatim>\<open>os.remove\<close>: a file only.\<close>

fun fs_remove :: "fsnode \<Rightarrow> path \<Rightarrow> fsnode option" where
  "fs_remove n [] = None"
| "fs_remove (File c) (x # xs) = None"
| "fs_remove (Dir es) [x] =
     (case map_of es x of
        Some (File c) \<Rightarrow> Some (Dir (AList.delete x es))
      | _ \<Rightarrow> None)"
| "fs_remove (Dir es) (x # y # ys) =
     (case map_of es x of
        None \<Rightarrow> None
      | Some n \<Rightarrow> map_option (\<lambda>n'. Dir (AList.update x n' es)) (fs_remove n (y # ys)))"

definition is_file :: "fsnode \<Rightarrow> bool" where
  "is_file n = (case n of File c \<Rightarrow> True | Dir es \<Rightarrow> False)"

text \<open>
  \<^verbatim>\<open>os.walk\<close>, top down: a directory first, then its subdirectories in listing order.
\<close>

fun walk :: "path \<Rightarrow> fsnode \<Rightarrow> (path \<times> string list \<times> string list) list" where
  "walk root (File c) = []"
| "walk root (Dir es) =
     (root,
      map fst (filter (\<lambda>e. \<not> is_file (snd e)) es),
      map fst (filter (\<lambda>e. is_file (snd e)) es))
     # concat (map (\<lambda>e. walk (root @ [fst e]) (snd e)) es)"

definition os_walk :: "fsnode \<Rightarrow> path \<Rightarrow> (path \<times> string list \<times> string list) list" where
  "os_walk t folder =
     (if folder = [] then []
      else case fs_lookup t folder of None \<Rightarrow> [] | Some n \<Rightarrow> walk folder n)"

text \<open>\<^verbatim>\<open>ZipFile.extractall(folder)\<close>: the members in order; it stops where a write fails.\<close>

fun extractall :: "fsnode \<Rightarrow> path \<Rightarrow> (path \<times> string) list \<Rightarrow> bool \<times> fsnode" where
  "extractall t folder [] = (True, t)"
| "extractall t folder (m # ms) =
     (case fs_write t (folder @ fst m) (snd m) of
        None \<Rightarrow> (False, t)
      | Some t' \<Rightarrow> extractall t' folder ms)"

section \<open>The program\<close>

text \<open>
  Every function takes the world and returns its result with the world it leaves;
  \<open>Inl\<close> is an exception that leaves the function.
\<close>

subsection \<open>\<^verbatim>\<open>download_ffmpeg\<close>\<close>

definition ffmpeg_url :: string where
  "ffmpeg_url = ''https://github.com/BtbN/FFmpeg-Builds/releases/download/latest/ffmpeg-master-latest-win64-lgpl.zip''"

definition ffmpeg_zip :: path where
  "ffmpeg_zip = [''ffmpeg.zip'']"

definition has_binary :: "path \<times> string list \<times> string list \<Rightarrow> bool" where
  "has_binary r = (case r of (root, dirs, files) \<Rightarrow>
     ''ffmpeg.exe'' \<in> set files \<or> ''ffmpeg'' \<in> set files)"

definition download_ffmpeg :: "env \<Rightarrow> path \<Rightarrow> world \<Rightarrow> (py_error + path option) \<times> world" where
  "download_ffmpeg E ffmpeg_folder w =
     (let ffmpeg_exe_path = ffmpeg_folder @ [''ffmpeg.exe''] in
      if path_exists (fs w) ffmpeg_exe_path
      then (Inr (Some ffmpeg_folder), emit (Print ''FFmpeg is already downloaded and available.'') w)
      else
        let w1 = emit (Requests_get (JStr ffmpeg_url)) (emit (Print ''Downloading FFmpeg...'') w) in
        case requests_get E (JStr ffmpeg_url) of
          Inl msg \<Rightarrow> (Inl (RequestException msg), w1)
        | Inr resp \<Rightarrow>
            let w2 = emit (Open_write ffmpeg_zip) w1 in
            (case fs_write (fs w2) ffmpeg_zip (resp_text resp) of
               None \<Rightarrow> (Inl OSError, w2)
             | Some t1 \<Rightarrow>
                 let w3 = emit (Print ''Extracting FFmpeg...'') (w2\<lparr>fs := t1\<rparr>) in
                 (case zip_members E (resp_text resp) of
                    Inl msg \<Rightarrow> (Inl (BadZipFile msg), w3)
                  | Inr ms \<Rightarrow>
                      (case extractall (fs w3) ffmpeg_folder ms of
                         (False, t2) \<Rightarrow>
                           (Inl OSError, emit (Zip_extractall ffmpeg_folder) (w3\<lparr>fs := t2\<rparr>))
                       | (True, t2) \<Rightarrow>
                           let w4 = emit (Os_remove ffmpeg_zip)
                                      (emit (Zip_extractall ffmpeg_folder) (w3\<lparr>fs := t2\<rparr>)) in
                           (case fs_remove (fs w4) ffmpeg_zip of
                              None \<Rightarrow> (Inl OSError, w4)
                            | Some t3 \<Rightarrow>
                                let w5 = w4\<lparr>fs := t3\<rparr> in
                                (case find has_binary (os_walk (fs w5) ffmpeg_folder) of
                                   Some (root, dirs, files) \<Rightarrow>
                                     (Inr (Some root), emit (Print ''FFmpeg setup completed.'') w5)
                                 | None \<Rightarrow>
                                     (Inr None,
                                      emit (Print ''FFmpeg binary not found after extraction!'') w5)))))))"

subsection \<open>\<^verbatim>\<open>read_json_file\<close>\<close>

text \<open>
  Lines 54 to 62. Only \<^verbatim>\<open>FileNotFoundError\<close> and \<^verbatim>\<open>json.JSONDecodeError\<close> are
  caught: every other exception of \<^verbatim>\<open>open\<close>, and the \<^verbatim>\<open>UnicodeDecodeError\<close> of
  \<^verbatim>\<open>json.load\<close> reading a file that does not decode, leave the function.
\<close>

definition read_json_file :: "env \<Rightarrow> path \<Rightarrow> world \<Rightarrow> (py_error + json) \<times> world" where
  "read_json_file E file_name w =
     (let w1 = emit (Open_read file_name) w in
      case fs_open_read (fs w) file_name of
        Inl e \<Rightarrow>
          if e = FileNotFoundError
          then (Inr (JArr []),
                emit (Print (''File '' @ path_str file_name @ '' not found.'')) w1)
          else (Inl e, w1)
      | Inr bytes \<Rightarrow>
          (case decode_text E bytes of
             None \<Rightarrow> (Inl UnicodeDecodeError, w1)
           | Some content \<Rightarrow>
               (case json_loads E content of
                  Inl msg \<Rightarrow>
                    (Inr (JArr []),
                     emit (Print (''Error decoding JSON file '' @ path_str file_name
                                  @ '': '' @ msg)) w1)
                | Inr v \<Rightarrow> (Inr v, w1))))"

subsection \<open>\<^verbatim>\<open>extract_playlist_links\<close>\<close>

definition extract_playlist_links ::
  "env \<Rightarrow> json \<Rightarrow> world \<Rightarrow> (py_error + video_entry list) \<times> world" where
  "extract_playlist_links E url w =
     (let w1 = emit (Requests_get url) w in
      case requests_get E url of
        Inl msg \<Rightarrow> (Inr [], emit (Print (''Error fetching the webpage: '' @ msg)) w1)
      | Inr resp \<Rightarrow>
          (case http_error resp of
             Some msg \<Rightarrow> (Inr [], emit (Print (''Error fetching the webpage: '' @ msg)) w1)
           | None \<Rightarrow>
               (case find_playlist_data (script_strings E (resp_text resp)) of
                  None \<Rightarrow> (Inr [], emit (Print ''No playlist data found.'') w1)
                | Some playlist_data \<Rightarrow>
                    if playlist_data = []
                    then (Inr [], emit (Print ''No playlist data found.'') w1)
                    else
                      (case json_loads E playlist_data of
                         Inl msg \<Rightarrow>
                           (Inr [], emit (Print (''Error decoding JSON data: '' @ msg)) w1)
                       | Inr data \<Rightarrow> (videos_of_data E data, w1)))))"

subsection \<open>\<^verbatim>\<open>download_audio\<close> and \<^verbatim>\<open>download_video\<close>\<close>

definition audio_opts :: "env \<Rightarrow> path \<Rightarrow> path \<Rightarrow> json \<Rightarrow> ydl_opts" where
  "audio_opts E download_folder ffmpeg_path t =
     \<lparr>format = ''bestaudio/best'',
      outtmpl = os_path_join (path_str download_folder) (fstr E t @ ''.%(ext)s''),
      postprocessors = Some [[(''key'', ''FFmpegExtractAudio''),
                              (''preferredcodec'', ''mp3''),
                              (''preferredquality'', ''192'')]],
      merge_output_format = None,
      ffmpeg_location = ffmpeg_path,
      quiet = False\<rparr>"

definition video_opts :: "env \<Rightarrow> path \<Rightarrow> path \<Rightarrow> json \<Rightarrow> ydl_opts" where
  "video_opts E download_folder ffmpeg_path t =
     \<lparr>format = ''bestvideo+bestaudio/best'',
      outtmpl = os_path_join (path_str download_folder) (fstr E t @ ''.%(ext)s''),
      postprocessors = None,
      merge_output_format = Some ''mp4'',
      ffmpeg_location = ffmpeg_path,
      quiet = False\<rparr>"

text \<open>
  The loops of lines 127 to 147 and 157 to 174. The entries are those that
  \<^verbatim>\<open>extract_playlist_links\<close> builds, so \<^verbatim>\<open>video['title']\<close> and \<^verbatim>\<open>video['link']\<close>
  are there; the \<^verbatim>\<open>try\<close> is around the construction of the options and the download,
  and \<^verbatim>\<open>except Exception\<close> catches whatever the downloader raises.
\<close>

fun audio_loop :: "env \<Rightarrow> video_entry list \<Rightarrow> path \<Rightarrow> path \<Rightarrow> world \<Rightarrow> world" where
  "audio_loop E [] ffmpeg_path download_folder w = w"
| "audio_loop E (video # videos) ffmpeg_path download_folder w =
     (let t = fstr E (title video);
          l = link video;
          w1 = emit (Print (''Downloading audio: '' @ t @ '' from '' @ l)) w;
          opts = audio_opts E download_folder ffmpeg_path (title video);
          w2 = emit (Ydl_download opts l) w1
      in case ydl_download E opts l of
           None \<Rightarrow>
             audio_loop E videos ffmpeg_path download_folder
               (emit (Print (''Downloaded audio: '' @ t)) w2)
         | Some e \<Rightarrow>
             audio_loop E videos ffmpeg_path download_folder
               (emit (Print (''Error downloading audio '' @ t @ '': '' @ e)) w2))"

fun video_loop :: "env \<Rightarrow> video_entry list \<Rightarrow> path \<Rightarrow> path \<Rightarrow> world \<Rightarrow> world" where
  "video_loop E [] ffmpeg_path download_folder w = w"
| "video_loop E (video # videos) ffmpeg_path download_folder w =
     (let t = fstr E (title video);
          l = link video;
          w1 = emit (Print (''Downloading video: '' @ t @ '' from '' @ l)) w;
          opts = video_opts E download_folder ffmpeg_path (title video);
          w2 = emit (Ydl_download opts l) w1
      in case ydl_download E opts l of
           None \<Rightarrow>
             video_loop E videos ffmpeg_path download_folder
               (emit (Print (''Downloaded video: '' @ t)) w2)
         | Some e \<Rightarrow>
             video_loop E videos ffmpeg_path download_folder
               (emit (Print (''Error downloading video '' @ t @ '': '' @ e)) w2))"

text \<open>Lines 124-125 and 154-155: the output directory.\<close>

definition ensure_folder :: "path \<Rightarrow> world \<Rightarrow> (py_error + unit) \<times> world" where
  "ensure_folder download_folder w =
     (if \<not> path_exists (fs w) download_folder
      then
        (let w1 = emit (Os_makedirs download_folder) w in
         case fs_makedirs (fs w1) download_folder of
           None \<Rightarrow> (Inl OSError, w1)
         | Some t \<Rightarrow> (Inr (), w1\<lparr>fs := t\<rparr>))
      else (Inr (), w))"

definition download_audio ::
  "env \<Rightarrow> video_entry list \<Rightarrow> path \<Rightarrow> path \<Rightarrow> world \<Rightarrow> (py_error + unit) \<times> world" where
  "download_audio E videos ffmpeg_path download_folder w =
     (case ensure_folder download_folder w of
        (Inl e, w1) \<Rightarrow> (Inl e, w1)
      | (Inr u, w1) \<Rightarrow> (Inr (), audio_loop E videos ffmpeg_path download_folder w1))"

definition download_video ::
  "env \<Rightarrow> video_entry list \<Rightarrow> path \<Rightarrow> path \<Rightarrow> world \<Rightarrow> (py_error + unit) \<times> world" where
  "download_video E videos ffmpeg_path download_folder w =
     (case ensure_folder download_folder w of
        (Inl e, w1) \<Rightarrow> (Inl e, w1)
      | (Inr u, w1) \<Rightarrow> (Inr (), video_loop E videos ffmpeg_path download_folder w1))"

subsection \<open>The driver (lines 177 to 194)\<close>

text \<open>Lines 184-185: what the driver reads from one entry of the configuration.\<close>

definition playlist_fields :: "json \<Rightarrow> py_error + json \<times> json" where
  "playlist_fields playlist =
     err_bind (py_subscript playlist ''link'') (\<lambda>url.
     err_bind (py_get playlist ''with_video'' (JBool False)) (\<lambda>with_video.
     Inr (url, with_video)))"

fun process_playlists :: "env \<Rightarrow> path \<Rightarrow> json list \<Rightarrow> world \<Rightarrow> (py_error + unit) \<times> world" where
  "process_playlists E ffmpeg_path [] w = (Inr (), w)"
| "process_playlists E ffmpeg_path (playlist # rest) w =
     (case playlist_fields playlist of
        Inl e \<Rightarrow> (Inl e, w)
      | Inr (url, with_video) \<Rightarrow>
          let w1 = emit (Print (''Processing playlist: '' @ fstr E url
                                @ '' | With video: '' @ fstr E with_video)) w in
          (case extract_playlist_links E url w1 of
             (Inl e, w2) \<Rightarrow> (Inl e, w2)
           | (Inr videos, w2) \<Rightarrow>
               (case (if truthy with_video
                      then download_video E videos ffmpeg_path [''videos''] w2
                      else download_audio E videos ffmpeg_path [''music''] w2) of
                  (Inl e, w3) \<Rightarrow> (Inl e, w3)
                | (Inr u, w3) \<Rightarrow> process_playlists E ffmpeg_path rest w3)))"


section \<open>Notions of the specification\<close>

text \<open>
  The definitions of this section are not translations of the code: they say, in the
  words of the specification, what the code is compared with.
\<close>

subsection \<open>Fields of the embedded data\<close>

text \<open>The value at a path of keys, when every key of the path is there.\<close>

fun json_path :: "string list \<Rightarrow> json \<Rightarrow> json option" where
  "json_path [] j = Some j"
| "json_path (k # ks) (JObj kvs) =
     (case map_of kvs k of None \<Rightarrow> None | Some v \<Rightarrow> json_path ks v)"
| "json_path (k # ks) _ = None"

text \<open>A key of the path is missing from the dictionary that should hold it.\<close>

fun key_missing :: "string list \<Rightarrow> json \<Rightarrow> bool" where
  "key_missing [] j = False"
| "key_missing (k # ks) (JObj kvs) =
     (case map_of kvs k of None \<Rightarrow> True | Some v \<Rightarrow> key_missing ks v)"
| "key_missing (k # ks) _ = False"

definition is_obj :: "json \<Rightarrow> bool" where
  "is_obj j = (case j of JObj kvs \<Rightarrow> True | _ \<Rightarrow> False)"

definition opt_obj :: "string list \<Rightarrow> json \<Rightarrow> bool" where
  "opt_obj p j = (case json_path p j of None \<Rightarrow> True | Some v \<Rightarrow> is_obj v)"

text \<open>Whatever is found on the way along a path, short of its end, is a dictionary.\<close>

definition obj_along :: "string list \<Rightarrow> json \<Rightarrow> bool" where
  "obj_along p j = list_all (\<lambda>q. opt_obj q j) (butlast (prefixes p))"

definition items_path :: "string list" where
  "items_path =
     [''contents'', ''twoColumnWatchNextResults'', ''playlist'', ''playlist'', ''contents'']"

definition title_path :: "string list" where
  "title_path = [''playlistPanelVideoRenderer'', ''title'', ''simpleText'']"

definition video_id_path :: "string list" where
  "video_id_path =
     [''playlistPanelVideoRenderer'', ''navigationEndpoint'', ''watchEndpoint'', ''videoId'']"

text \<open>
  A well-formed playlist item record: a dictionary whose nested fields, where
  present, are dictionaries, and whose video identifier, where present, is a string.
\<close>

definition wf_item :: "json \<Rightarrow> bool" where
  "wf_item item =
     (obj_along title_path item \<and> obj_along video_id_path item
      \<and> (case json_path video_id_path item of
            None \<Rightarrow> True
          | Some (JStr s) \<Rightarrow> True
          | Some _ \<Rightarrow> False))"

text \<open>The video identifier of a record, empty when the record has none.\<close>

definition spec_video_id :: "json \<Rightarrow> string" where
  "spec_video_id item = (case json_path video_id_path item of Some (JStr s) \<Rightarrow> s | _ \<Rightarrow> [])"

definition spec_title :: "json \<Rightarrow> json" where
  "spec_title item =
     (case json_path title_path item of None \<Rightarrow> JStr ''No Title'' | Some t \<Rightarrow> t)"

definition spec_entry :: "json \<Rightarrow> video_entry" where
  "spec_entry item = \<lparr>title = spec_title item, link = watch_prefix @ spec_video_id item\<rparr>"

text \<open>
  The entries of the specification: one for each record with a non-empty video
  identifier, in the order of the records.
\<close>

definition spec_entries :: "json list \<Rightarrow> video_entry list" where
  "spec_entries items = map spec_entry (filter (\<lambda>item. spec_video_id item \<noteq> []) items)"

subsection \<open>Script elements\<close>

text \<open>Where a text first occurs in a string.\<close>

fun first_index :: "string \<Rightarrow> string \<Rightarrow> nat option" where
  "first_index n [] = (if n = [] then Some 0 else None)"
| "first_index n (c # cs) =
     (if prefix n (c # cs) then Some 0 else map_option Suc (first_index n cs))"

text \<open>A script element whose text holds the start of the assignment.\<close>

definition holds_assignment :: "string option \<Rightarrow> bool" where
  "holds_assignment tag = (case tag of None \<Rightarrow> False | Some s \<Rightarrow> contains assignment_head s)"

text \<open>The first script element whose text contains the marker.\<close>

fun first_marker_script :: "string option list \<Rightarrow> string option" where
  "first_marker_script [] = None"
| "first_marker_script (tag # tags) =
     (case tag of
        None \<Rightarrow> first_marker_script tags
      | Some s \<Rightarrow> if contains marker s then Some s else first_marker_script tags)"

text \<open>The first script element whose text contains the marker and matches the pattern.\<close>

fun first_matching_script :: "string option list \<Rightarrow> string option" where
  "first_matching_script [] = None"
| "first_matching_script (tag # tags) =
     (case tag of
        None \<Rightarrow> first_matching_script tags
      | Some s \<Rightarrow>
          if contains marker s \<and> re_search s \<noteq> None then Some s
          else first_matching_script tags)"

section \<open>A concrete playlist page\<close>

definition example_blob :: string where
  \<open>example_blob = ''{"contents": {"twoColumnWatchNextResults": {"playlist": {"playlist": {"contents": [{"playlistPanelVideoRenderer": {"title": {"simpleText": "Song A"}, "navigationEndpoint": {"watchEndpoint": {"videoId": "abc123"}}}}, {"playlistPanelVideoRenderer": {"title": {"simpleText": "Song B"}}}, {"playlistPanelVideoRenderer": {"navigationEndpoint": {"watchEndpoint": {"videoId": "xyz789"}}}}]}}}}}''\<close>

definition example_items :: "json list" where
  "example_items =
     [JObj [(''playlistPanelVideoRenderer'',
        JObj [(''title'', JObj [(''simpleText'', JStr ''Song A'')]),
              (''navigationEndpoint'',
                 JObj [(''watchEndpoint'', JObj [(''videoId'', JStr ''abc123'')])])])],
      JObj [(''playlistPanelVideoRenderer'',
        JObj [(''title'', JObj [(''simpleText'', JStr ''Song B'')])])],
      JObj [(''playlistPanelVideoRenderer'',
        JObj [(''navigationEndpoint'',
                 JObj [(''watchEndpoint'', JObj [(''videoId'', JStr ''xyz789'')])])])]]"

definition example_data :: json where
  "example_data =
     JObj [(''contents'', JObj [(''twoColumnWatchNextResults'',
       JObj [(''playlist'', JObj [(''playlist'',
         JObj [(''contents'', JArr example_items)])])])])]"

definition example_script1 :: string where
  "example_script1 = ''window.ytInitialData = window.ytInitialData || 0;''"

definition example_script2 :: string where
  "example_script2 = ''var ytInitialData = '' @ example_blob @ '';''"

definition example_page :: string where
  "example_page = ''<script>'' @ example_script1 @ ''</script><script>''
                  @ example_script2 @ ''</script>''"

definition example_url :: json where
  "example_url = JStr ''https://x/playlist1''"

text \<open>
  A second page: one record, whose title holds the two characters that end the
  pattern. The blob is well-formed, and the pattern cuts it off inside the title.
\<close>

definition tricky_blob :: string where
  \<open>tricky_blob = ''{"contents": {"twoColumnWatchNextResults": {"playlist": {"playlist": {"contents": [{"playlistPanelVideoRenderer": {"title": {"simpleText": "a};b"}, "navigationEndpoint": {"watchEndpoint": {"videoId": "abc123"}}}}]}}}}}''\<close>

definition tricky_cut :: string where
  \<open>tricky_cut = ''{"contents": {"twoColumnWatchNextResults": {"playlist": {"playlist": {"contents": [{"playlistPanelVideoRenderer": {"title": {"simpleText": "a}''\<close>

definition tricky_items :: "json list" where
  "tricky_items =
     [JObj [(''playlistPanelVideoRenderer'',
        JObj [(''title'', JObj [(''simpleText'', JStr ''a};b'')]),
              (''navigationEndpoint'',
                 JObj [(''watchEndpoint'', JObj [(''videoId'', JStr ''abc123'')])])])]]"

definition tricky_data :: json where
  "tricky_data =
     JObj [(''contents'', JObj [(''twoColumnWatchNextResults'',
       JObj [(''playlist'', JObj [(''playlist'',
         JObj [(''contents'', JArr tricky_items)])])])])]"

definition tricky_script :: string where
  "tricky_script = ''var ytInitialData = '' @ tricky_blob @ '';''"

definition tricky_page :: string where
  "tricky_page = ''<script>'' @ tricky_script @ ''</script>''"

definition tricky_url :: json where
  "tricky_url = JStr ''https://x/playlist2''"

text \<open>
  The archive at the fixed address holds the binaries in a \<^verbatim>\<open>bin\<close> directory below a
  directory named after the build.
\<close>

definition release_archive :: "(path \<times> string) list" where
  "release_archive =
     [([''ffmpeg-master-latest-win64-lgpl'', ''LICENSE.txt''], ''LGPL''),
      ([''ffmpeg-master-latest-win64-lgpl'', ''bin'', ''ffmpeg.exe''], ''MZ''),
      ([''ffmpeg-master-latest-win64-lgpl'', ''bin'', ''ffprobe.exe''], ''MZ'')]"

text \<open>A configuration of two playlists, and one with an entry that has no link.\<close>

definition example_config :: string where
  \<open>example_config = ''[{"link": "https://x/playlist1"}, {"link": "https://x/playlist1", "with_video": true}]''\<close>

definition example_descriptors :: "json list" where
  "example_descriptors =
     [JObj [(''link'', example_url)],
      JObj [(''link'', example_url), (''with_video'', JBool True)]]"

definition faulty_config :: string where
  \<open>faulty_config = ''[{"link": "https://x/playlist1"}, {"with_video": true}, {"link": "https://x/playlist1"}]''\<close>

definition faulty_descriptors :: "json list" where
  "faulty_descriptors =
     [JObj [(''link'', example_url)],
      JObj [(''with_video'', JBool True)],
      JObj [(''link'', example_url)]]"

text \<open>
  An outside world with the two pages and the archive: every other address refuses
  the connection, only the two blobs and the two configurations are valid JSON, the
  download of \<open>xyz789\<close> fails, and the encoding of the locale is ASCII, so that a
  byte above 127 does not decode.
\<close>

definition example_env :: env where
  "example_env =
     \<lparr>requests_get = (\<lambda>u. if u = example_url
                           then Inr \<lparr>resp_text = example_page, http_error = None\<rparr>
                           else if u = tricky_url
                           then Inr \<lparr>resp_text = tricky_page, http_error = None\<rparr>
                           else if u = JStr ffmpeg_url
                           then Inr \<lparr>resp_text = ''PK'', http_error = None\<rparr>
                           else Inl ''connection refused''),
      script_strings = (\<lambda>h. if h = example_page
                             then [None, Some example_script1, Some example_script2]
                             else if h = tricky_page then [Some tricky_script]
                             else []),
      json_loads = (\<lambda>s. if s = example_blob then Inr example_data
                         else if s = tricky_blob then Inr tricky_data
                         else if s = example_config then Inr (JArr example_descriptors)
                         else if s = faulty_config then Inr (JArr faulty_descriptors)
                         else Inl ''Expecting value''),
      zip_members = (\<lambda>b. if b = ''PK'' then Inr release_archive
                          else Inl ''File is not a zip file''),
      ydl_download = (\<lambda>opts l. if l = ''https://www.youtube.com/watch?v=xyz789''
                               then Some ''Video unavailable'' else None),
      py_str = (\<lambda>v. ''?''),
      decode_text = (\<lambda>b. if list_ex digit7 b then None else Some b)\<rparr>"

definition empty_world :: world where
  "empty_world = \<lparr>fs = Dir [], trace = []\<rparr>"

text \<open>The entries of the example page.\<close>

definition example_entries :: "video_entry list" where
  "example_entries =
     [\<lparr>title = JStr ''Song A'', link = ''https://www.youtube.com/watch?v=abc123''\<rparr>,
      \<lparr>title = JStr ''No Title'', link = ''https://www.youtube.com/watch?v=xyz789''\<rparr>]"

text \<open>A working directory that holds a configuration file and nothing else.\<close>

definition configured_world :: "string \<Rightarrow> world" where
  "configured_world config = \<lparr>fs = Dir [(''playlists.json'', File config)], trace = []\<rparr>"

section \<open>Observations on the trace\<close>

fun is_request :: "event \<Rightarrow> bool" where
  "is_request (Requests_get u) = True"
| "is_request _ = False"

text \<open>The number of \<^verbatim>\<open>requests.get\<close> calls made so far.\<close>

definition network_calls :: "world \<Rightarrow> nat" where
  "network_calls w = length (filter is_request (trace w))"

fun is_download :: "event \<Rightarrow> bool" where
  "is_download (Ydl_download opts l) = True"
| "is_download _ = False"

text \<open>The downloads attempted so far, in order.\<close>

definition downloads :: "world \<Rightarrow> event list" where
  "downloads w = filter is_download (trace w)"

section \<open>The working directory after provisioning\<close>

definition release_bin :: fsnode where
  "release_bin =
     Dir [(''ffmpeg-master-latest-win64-lgpl'',
       Dir [(''LICENSE.txt'', File ''LGPL''),
            (''bin'', Dir [(''ffmpeg.exe'', File ''MZ''), (''ffprobe.exe'', File ''MZ'')])])]"

definition release_tree :: fsnode where
  "release_tree = Dir [(''ffmpeg_bin'', release_bin)]"

definition release_dir :: path where
  "release_dir = [''ffmpeg_bin'', ''ffmpeg-master-latest-win64-lgpl'', ''bin'']"

definition release_trace :: "event list" where
  "release_trace =
     [Print ''Downloading FFmpeg...'', Requests_get (JStr ffmpeg_url),
      Open_write ffmpeg_zip, Print ''Extracting FFmpeg...'',
      Zip_extractall [''ffmpeg_bin''], Os_remove ffmpeg_zip,
      Print ''FFmpeg setup completed.'']"

section \<open>Observations on the downloads\<close>

text \<open>
  For one entry: the call of the downloader, and the line printed after it, which
  names the entry's title and, when the downloader raised, the error.
\<close>

definition audio_attempt :: "env \<Rightarrow> path \<Rightarrow> path \<Rightarrow> video_entry \<Rightarrow> event" where
  "audio_attempt E ffmpeg_path download_folder video =
     Ydl_download (audio_opts E download_folder ffmpeg_path (title video)) (link video)"

definition video_attempt :: "env \<Rightarrow> path \<Rightarrow> path \<Rightarrow> video_entry \<Rightarrow> event" where
  "video_attempt E ffmpeg_path download_folder video =
     Ydl_download (video_opts E download_folder ffmpeg_path (title video)) (link video)"

definition audio_report :: "env \<Rightarrow> path \<Rightarrow> path \<Rightarrow> video_entry \<Rightarrow> event" where
  "audio_report E ffmpeg_path download_folder video =
     (case ydl_download E (audio_opts E download_folder ffmpeg_path (title video)) (link video) of
        None \<Rightarrow> Print (''Downloaded audio: '' @ fstr E (title video))
      | Some e \<Rightarrow> Print (''Error downloading audio '' @ fstr E (title video) @ '': '' @ e))"

definition video_report :: "env \<Rightarrow> path \<Rightarrow> path \<Rightarrow> video_entry \<Rightarrow> event" where
  "video_report E ffmpeg_path download_folder video =
     (case ydl_download E (video_opts E download_folder ffmpeg_path (title video)) (link video) of
        None \<Rightarrow> Print (''Downloaded video: '' @ fstr E (title video))
      | Some e \<Rightarrow> Print (''Error downloading video '' @ fstr E (title video) @ '': '' @ e))"

definition audio_events :: "env \<Rightarrow> path \<Rightarrow> path \<Rightarrow> video_entry \<Rightarrow> event list" where
  "audio_events E ffmpeg_path download_folder video =
     [Print (''Downloading audio: '' @ fstr E (title video) @ '' from '' @ link video),
      audio_attempt E ffmpeg_path download_folder video,
      audio_report E ffmpeg_path download_folder video]"

definition video_events :: "env \<Rightarrow> path \<Rightarrow> path \<Rightarrow> video_entry \<Rightarrow> event list" where
  "video_events E ffmpeg_path download_folder video =
     [Print (''Downloading video: '' @ fstr E (title video) @ '' from '' @ link video),
      video_attempt E ffmpeg_path download_folder video,
      video_report E ffmpeg_path download_folder video]"

definition example_videos :: "video_entry list" where
  "example_videos =
     [\<lparr>title = JStr ''Song A'', link = ''https://www.youtube.com/watch?v=abc123''\<rparr>,
      \<lparr>title = JStr ''No Title'', link = ''https://www.youtube.com/watch?v=xyz789''\<rparr>,
      \<lparr>title = JStr ''Song C'', link = ''https://www.youtube.com/watch?v=def456''\<rparr>]"

section \<open>Notions of the specification for the configuration and the driver\<close>

text \<open>
  The playlist descriptor of the specification: the link, and the flag, which is false
  when the field is omitted.
\<close>

definition spec_link :: "json \<Rightarrow> string" where
  "spec_link d = (case json_path [''link''] d of Some (JStr u) \<Rightarrow> u | _ \<Rightarrow> [])"

definition spec_with_video :: "json \<Rightarrow> bool" where
  "spec_with_video d = (case json_path [''with_video''] d of Some (JBool b) \<Rightarrow> b | _ \<Rightarrow> False)"

text \<open>A well-formed descriptor object: a string link and, if present, a boolean flag.\<close>

definition wf_descriptor :: "json \<Rightarrow> bool" where
  "wf_descriptor d =
     ((case json_path [''link''] d of Some (JStr u) \<Rightarrow> True | _ \<Rightarrow> False)
      \<and> (case json_path [''with_video''] d of
            None \<Rightarrow> True
          | Some (JBool b) \<Rightarrow> True
          | Some _ \<Rightarrow> False))"

text \<open>What the extraction returns for an address; it does not depend on the world.\<close>

definition extracted :: "env \<Rightarrow> json \<Rightarrow> py_error + video_entry list" where
  "extracted E url = fst (extract_playlist_links E url \<lparr>fs = Dir [], trace = []\<rparr>)"

text \<open>
  The downloads that one entry of the configuration asks for: the video routine for
  every extracted entry when the flag is true, the audio routine otherwise.
\<close>

definition descriptor_downloads :: "env \<Rightarrow> path \<Rightarrow> json \<Rightarrow> event list" where
  "descriptor_downloads E ffmpeg_path d =
     (case playlist_fields d of
        Inl e \<Rightarrow> []
      | Inr (url, with_video) \<Rightarrow>
          (case extracted E url of
             Inl e \<Rightarrow> []
           | Inr videos \<Rightarrow>
               if truthy with_video
               then map (video_attempt E ffmpeg_path [''videos'']) videos
               else map (audio_attempt E ffmpeg_path [''music'']) videos))"

section \<open>Paths that cannot be opened\<close>

text \<open>A regular file lies on the way along a path, short of its end.\<close>

fun file_on_the_way :: "fsnode \<Rightarrow> path \<Rightarrow> bool" where
  "file_on_the_way n [] = False"
| "file_on_the_way (File c) (x # xs) = True"
| "file_on_the_way (Dir es) (x # xs) =
     (case map_of es x of None \<Rightarrow> False | Some n \<Rightarrow> file_on_the_way n xs)"

section \<open>Chains of lookups\<close>

text \<open>
  A chain of \<^verbatim>\<open>.get(k, {})\<close> calls that ends with \<^verbatim>\<open>.get(k, d)\<close>, as the code writes
  it three times.
\<close>

fun get_chain :: "string list \<Rightarrow> json \<Rightarrow> json \<Rightarrow> py_error + json" where
  "get_chain [] d j = Inr j"
| "get_chain [k] d j = py_get j k d"
| "get_chain (k # k' # ks) d j = err_bind (py_get j k (JObj [])) (get_chain (k' # ks) d)"

section \<open>Properties\<close>

subsection \<open>Auxiliary facts\<close>

lemma err_bind_simps [simp]:
  "err_bind (Inl e) f = Inl e" "err_bind (Inr a) f = f a"
  by (simp_all add: err_bind_def)

lemma is_objE: "is_obj j \<Longrightarrow> \<exists>kvs. j = JObj kvs"
  by (cases j) (simp_all add: is_obj_def)

lemma obj_along_Cons:
  "obj_along (k # ks) j \<longleftrightarrow>
     (is_obj j \<and> list_all (\<lambda>q. opt_obj (k # q) j) (butlast (prefixes ks)))"
  by (simp add: obj_along_def opt_obj_def list_all_iff map_butlast[symmetric])

lemma get_chain_default:
  "p \<noteq> [] \<Longrightarrow> get_chain p d (JObj []) = Inr d"
  by (induction p d "JObj []" rule: get_chain.induct) simp_all

lemma get_chain_total:
  "p \<noteq> [] \<Longrightarrow> obj_along p j \<Longrightarrow>
   get_chain p d j = Inr (case json_path p j of None \<Rightarrow> d | Some v \<Rightarrow> v)"
proof (induction p d j rule: get_chain.induct)
  case (1 d j)
  then show ?case by simp
next
  case (2 k d j)
  then have "is_obj j" by (simp add: obj_along_Cons)
  then obtain kvs where "j = JObj kvs" using is_objE by blast
  then show ?case by (simp split: option.splits)
next
  case (3 k k' ks d j)
  from "3.prems"(2) have "is_obj j"
    and al: "list_all (\<lambda>q. opt_obj (k # q) j) (butlast (prefixes (k' # ks)))"
    by (simp_all add: obj_along_Cons)
  then obtain kvs where j: "j = JObj kvs" using is_objE by blast
  show ?case
  proof (cases "map_of kvs k")
    case None
    then show ?thesis using j by (simp add: get_chain_default)
  next
    case (Some v)
    have eq: "\<And>q. opt_obj (k # q) j = opt_obj q v"
      using j Some by (simp add: opt_obj_def)
    from al have oa: "obj_along (k' # ks) v"
      unfolding obj_along_def eq .
    have "get_chain (k' # ks) d v = Inr (case json_path (k' # ks) v of None \<Rightarrow> d | Some v \<Rightarrow> v)"
      using "3.IH"[of v] oa by simp
    then show ?thesis using j Some by simp
  qed
qed

lemma get_chain_found:
  "p \<noteq> [] \<Longrightarrow> json_path p j = Some v \<Longrightarrow> get_chain p d j = Inr v"
proof (induction p d j rule: get_chain.induct)
  case (1 d j)
  then show ?case by simp
next
  case (2 k d j)
  then show ?case by (cases j) (simp_all split: option.splits)
next
  case (3 k k' ks d j)
  then show ?case by (cases j) (simp_all split: option.splits)
qed

lemma get_chain_missing:
  "key_missing p j \<Longrightarrow> get_chain p d j = Inr d"
proof (induction p d j rule: get_chain.induct)
  case (1 d j)
  then show ?case by simp
next
  case (2 k d j)
  then show ?case by (cases j) (simp_all split: option.splits)
next
  case (3 k k' ks d j)
  then show ?case by (cases j) (simp_all add: get_chain_default split: option.splits)
qed

lemma playlist_items_chain: "playlist_items data = get_chain items_path (JArr []) data"
  by (simp add: playlist_items_def items_path_def err_bind_def split: sum.splits)

lemma item_entry_chain:
  "item_entry E item =
     err_bind (get_chain title_path (JStr ''No Title'') item) (\<lambda>title.
     err_bind (get_chain video_id_path (JStr []) item) (\<lambda>video_id.
       Inr (if truthy video_id
            then Some \<lparr>title = title, link = watch_prefix @ fstr E video_id\<rparr>
            else None)))"
  by (simp add: item_entry_def title_path_def video_id_path_def err_bind_def watch_prefix_def
      Let_def split: sum.splits)

lemma item_entry_wf:
  assumes "wf_item item"
  shows "item_entry E item =
    Inr (if spec_video_id item \<noteq> [] then Some (spec_entry item) else None)"
proof -
  have t: "get_chain title_path (JStr ''No Title'') item = Inr (spec_title item)"
    using get_chain_total[of title_path item "JStr ''No Title''"] assms
    by (simp add: wf_item_def spec_title_def title_path_def)
  have v: "get_chain video_id_path (JStr []) item = Inr (JStr (spec_video_id item))"
    using get_chain_total[of video_id_path item "JStr []"] assms
    by (auto simp add: wf_item_def spec_video_id_def video_id_path_def
        split: option.splits json.splits)
  show ?thesis
    by (simp add: item_entry_chain t v spec_entry_def)
qed

lemma collect_videos_wf:
  "\<forall>item\<in>set items. wf_item item \<Longrightarrow>
   collect_videos E items videos = Inr (videos @ spec_entries items)"
  by (induction items arbitrary: videos) (simp_all add: spec_entries_def item_entry_wf)

lemma re_search_nonempty: "re_search s = Some g \<Longrightarrow> g \<noteq> []"
  by (induction s) (auto simp: match_at_def split: if_splits option.splits)

lemma find_playlist_data_nonempty: "find_playlist_data tags = Some g \<Longrightarrow> g \<noteq> []"
  by (induction tags) (auto simp: re_search_nonempty split: if_splits option.splits)

lemma example_scripts_found:
  "find_playlist_data [None, Some example_script1, Some example_script2] = Some example_blob"
  by (simp add: example_script1_def example_script2_def example_blob_def match_at_def
      assignment_head_def newline_def marker_def)

lemma videos_of_data_wf:
  assumes "json_path items_path data = Some (JArr items)"
    and "\<forall>item\<in>set items. wf_item item"
  shows "videos_of_data E data = Inr (spec_entries items)"
proof -
  have "playlist_items data = Inr (JArr items)"
    using assms(1) get_chain_found[of items_path data "JArr items" "JArr []"]
    by (simp add: playlist_items_chain items_path_def)
  then show ?thesis
    using assms(2) by (simp add: videos_of_data_def collect_videos_wf)
qed

lemma extract_parsed:
  assumes "requests_get E url = Inr resp" and "http_error resp = None"
    and "find_playlist_data (script_strings E (resp_text resp)) = Some blob"
    and "json_loads E blob = Inr data"
  shows "fst (extract_playlist_links E url w) = videos_of_data E data"
proof -
  have "blob \<noteq> []" using assms(3) by (rule find_playlist_data_nonempty)
  then show ?thesis
    using assms by (simp add: extract_playlist_links_def Let_def)
qed

lemma videos_of_data_missing:
  "key_missing items_path data \<Longrightarrow> videos_of_data E data = Inr []"
  by (simp add: videos_of_data_def playlist_items_chain get_chain_missing)

lemma find_playlist_data_no_marker:
  "first_marker_script tags = None \<Longrightarrow> find_playlist_data tags = None"
  by (induction tags) (auto split: option.splits if_splits)

lemma example_items_path: "json_path items_path example_data = Some (JArr example_items)"
  by (simp add: items_path_def example_data_def)

lemma example_items_wf: "\<forall>item\<in>set example_items. wf_item item"
  by (simp add: example_items_def wf_item_def obj_along_def opt_obj_def is_obj_def
      title_path_def video_id_path_def)

lemma example_spec_entries:
  "spec_entries example_items =
     [\<lparr>title = JStr ''Song A'', link = ''https://www.youtube.com/watch?v=abc123''\<rparr>,
      \<lparr>title = JStr ''No Title'', link = ''https://www.youtube.com/watch?v=xyz789''\<rparr>]"
  by (simp add: spec_entries_def spec_entry_def spec_video_id_def spec_title_def example_items_def
      title_path_def video_id_path_def watch_prefix_def)

lemma example_get:
  "requests_get example_env example_url = Inr \<lparr>resp_text = example_page, http_error = None\<rparr>"
  by (simp add: example_env_def)

lemma example_unreachable:
  "requests_get example_env (JStr ''https://x/unreachable'') = Inl ''connection refused''"
  by (simp add: example_env_def example_url_def tricky_url_def ffmpeg_url_def)

lemma example_scripts:
  "script_strings example_env example_page = [None, Some example_script1, Some example_script2]"
  by (simp add: example_env_def)

lemma example_find:
  "find_playlist_data (script_strings example_env example_page) = Some example_blob"
  using example_scripts_found by (simp only: example_scripts)

lemma example_find_resp:
  "find_playlist_data
     (script_strings example_env (resp_text \<lparr>resp_text = example_page, http_error = None\<rparr>))
     = Some example_blob"
  using example_find by simp

lemma example_loads: "json_loads example_env example_blob = Inr example_data"
  by (simp add: example_env_def)

lemma example_extract:
  "fst (extract_playlist_links example_env example_url empty_world) =
     Inr [\<lparr>title = JStr ''Song A'', link = ''https://www.youtube.com/watch?v=abc123''\<rparr>,
          \<lparr>title = JStr ''No Title'', link = ''https://www.youtube.com/watch?v=xyz789''\<rparr>]"
  using extract_parsed[OF example_get _ example_find_resp example_loads, of empty_world]
    videos_of_data_wf[OF example_items_path example_items_wf, of example_env]
  by (simp add: example_spec_entries)

lemma lazy_until_split: "lazy_until s = Some b \<Longrightarrow> \<exists>rest. s = b @ ''};'' @ rest"
proof (induction s arbitrary: b)
  case Nil
  then show ?case by simp
next
  case (Cons c cs)
  show ?case
  proof (cases "prefix ''};'' (c # cs)")
    case True
    then show ?thesis using Cons.prems by (auto simp: prefix_def)
  next
    case False
    then obtain b' where "lazy_until cs = Some b'" "b = c # b'"
      using Cons.prems by (auto split: if_splits)
    then show ?thesis using Cons.IH by auto
  qed
qed

lemma lazy_until_shortest: "lazy_until s = Some b \<Longrightarrow> \<not> contains ''};'' (b @ ''}'')"
proof (induction s arbitrary: b)
  case Nil
  then show ?case by simp
next
  case (Cons c cs)
  show ?case
  proof (cases "prefix ''};'' (c # cs)")
    case True
    then show ?thesis using Cons.prems by simp
  next
    case False
    then obtain b' where b': "lazy_until cs = Some b'" "b = c # b'"
      using Cons.prems by (auto split: if_splits)
    then obtain rest where cs: "cs = b' @ ''};'' @ rest"
      using lazy_until_split by blast
    have "\<not> contains ''};'' (b' @ ''}'')" using Cons.IH b' by simp
    moreover have "\<not> prefix ''};'' (c # b' @ ''}'')"
      using False cs by (cases b') auto
    ultimately show ?thesis using b' by simp
  qed
qed

lemma re_search_shortest: "re_search s = Some g \<Longrightarrow> \<not> contains ''};'' g"
proof (induction s)
  case Nil
  then show ?case by (simp add: match_at_def assignment_head_def)
next
  case (Cons c cs)
  show ?case
  proof (cases "match_at (c # cs)")
    case None
    then show ?thesis using Cons by simp
  next
    case (Some g')
    then have "g' = g" using Cons.prems by simp
    with Some obtain b where "lazy_until (drop (length assignment_head) (c # cs)) = Some b"
      "g = ''{'' @ b @ ''}''"
      by (auto simp: match_at_def split: if_splits)
    then show ?thesis using lazy_until_shortest by fastforce
  qed
qed

lemma find_playlist_data_shortest: "find_playlist_data tags = Some g \<Longrightarrow> \<not> contains ''};'' g"
  by (induction tags) (auto simp: re_search_shortest split: option.splits if_splits)

lemma marker_nonempty: "marker \<noteq> []"
  by (simp add: marker_def)

lemma contains_nonempty: "contains marker s \<Longrightarrow> s \<noteq> []"
  by (cases s) (simp_all add: marker_nonempty)

lemma find_playlist_data_matching:
  "find_playlist_data tags =
     (case first_matching_script tags of None \<Rightarrow> None | Some s \<Rightarrow> re_search s)"
  by (induction tags) (auto simp: contains_nonempty marker_nonempty split: option.splits)

subsection \<open>Link extraction\<close>

lemma lazy_until_whole:
  "newline \<notin> set b \<Longrightarrow> \<not> contains ''};'' (b @ ''}'') \<Longrightarrow> lazy_until (b @ ''};'' @ rest) = Some b"
proof (induction b)
  case Nil
  then show ?case by simp
next
  case (Cons c b)
  have np: "\<not> prefix ''};'' (c # b @ ''};'' @ rest)"
    using Cons.prems(2) by (cases b) auto
  have "\<not> contains ''};'' (b @ ''}'')" using Cons.prems(2) by simp
  then have "lazy_until (b @ ''};'' @ rest) = Some b"
    using Cons.IH Cons.prems(1) by simp
  moreover have "c \<noteq> newline" using Cons.prems(1) by auto
  ultimately show ?case using np by simp
qed

lemma match_at_whole:
  assumes "newline \<notin> set body" and "\<not> contains ''};'' (''{'' @ body @ ''}'')"
  shows "match_at (''var ytInitialData = '' @ (''{'' @ body @ ''}'') @ '';'' @ post)
           = Some (''{'' @ body @ ''}'')"
proof -
  have "\<not> contains ''};'' (body @ ''}'')" using assms(2) by simp
  then have "lazy_until (body @ ''};'' @ post) = Some body"
    using assms(1) by (rule lazy_until_whole[rotated])
  then show ?thesis
    by (simp add: match_at_def assignment_head_def)
qed

lemma re_search_first_index:
  "first_index assignment_head (pre @ s) = Some (length pre) \<Longrightarrow> match_at s = Some g \<Longrightarrow>
   re_search (pre @ s) = Some g"
proof (induction pre)
  case Nil
  then show ?case by (cases s) (simp_all add: match_at_def assignment_head_def)
next
  case (Cons c pre)
  from Cons.prems(1) have np: "\<not> prefix assignment_head (c # pre @ s)"
    by (auto split: if_splits)
  with Cons.prems(1) have "first_index assignment_head (pre @ s) = Some (length pre)"
    by auto
  then have "re_search (pre @ s) = Some g" using Cons.IH Cons.prems(2) by simp
  moreover have "match_at (c # pre @ s) = None" using np by (simp add: match_at_def)
  ultimately show ?case by simp
qed

lemma re_search_no_head: "\<not> contains assignment_head s \<Longrightarrow> re_search s = None"
  by (induction s) (auto simp: match_at_def assignment_head_def)

lemma find_playlist_data_skip:
  "\<forall>t\<in>set before. \<not> holds_assignment t \<Longrightarrow>
   find_playlist_data (before @ tags) = find_playlist_data tags"
  by (induction before)
     (auto simp: holds_assignment_def re_search_no_head split: option.splits)

lemma contains_middle: "contains n (pre @ n @ post)"
proof (induction pre)
  case Nil
  have "prefix n (n @ post)" by simp
  then show ?case by (cases "n @ post") auto
next
  case (Cons c pre)
  then show ?case by simp
qed

lemma assignment_has_marker: "contains marker (pre @ ''var ytInitialData = '' @ rest)"
proof -
  have "pre @ ''var ytInitialData = '' @ rest = (pre @ ''var '') @ marker @ ('' = '' @ rest)"
    by (simp add: marker_def)
  then show ?thesis using contains_middle by metis
qed

lemma find_playlist_data_whole:
  assumes "\<forall>t\<in>set before. \<not> holds_assignment t"
    and "script = pre @ ''var ytInitialData = '' @ blob @ '';'' @ post"
    and "first_index assignment_head script = Some (length pre)"
    and "blob = ''{'' @ body @ ''}''"
    and "newline \<notin> set blob" and "\<not> contains ''};'' blob"
  shows "find_playlist_data (before @ Some script # after) = Some blob"
proof -
  have "newline \<notin> set body" using assms(4,5) by simp
  then have "match_at (''var ytInitialData = '' @ blob @ '';'' @ post) = Some blob"
    using assms(6) match_at_whole[of body post] unfolding assms(4) by simp
  then have r: "re_search script = Some blob"
    using assms(3) re_search_first_index[of pre "''var ytInitialData = '' @ blob @ '';'' @ post" blob]
    unfolding assms(2) by simp
  have m: "contains marker script"
    unfolding assms(2) by (rule assignment_has_marker)
  then have "script \<noteq> []" by (rule contains_nonempty)
  then have "find_playlist_data (Some script # after) = Some blob"
    using r m by simp
  then show ?thesis
    using assms(1) by (simp add: find_playlist_data_skip)
qed

lemma tricky_get:
  "requests_get example_env tricky_url = Inr \<lparr>resp_text = tricky_page, http_error = None\<rparr>"
  by (simp add: example_env_def example_url_def tricky_url_def)

lemma tricky_scripts: "script_strings example_env tricky_page = [Some tricky_script]"
  by (simp add: example_env_def example_page_def tricky_page_def example_script1_def
      tricky_script_def)

lemma tricky_found: "find_playlist_data [Some tricky_script] = Some tricky_cut"
  by (simp add: tricky_script_def tricky_blob_def tricky_cut_def match_at_def
      assignment_head_def newline_def marker_def)

lemma tricky_find:
  "find_playlist_data (script_strings example_env tricky_page) = Some tricky_cut"
  using tricky_found by (simp only: tricky_scripts)

lemma tricky_cut_invalid: "json_loads example_env tricky_cut = Inl ''Expecting value''"
  by (simp add: example_env_def tricky_cut_def example_blob_def tricky_blob_def
      example_config_def faulty_config_def)

lemma tricky_loads: "json_loads example_env tricky_blob = Inr tricky_data"
  by (simp add: example_env_def example_blob_def tricky_blob_def)

lemma tricky_extract: "fst (extract_playlist_links example_env tricky_url empty_world) = Inr []"
proof -
  have "tricky_cut \<noteq> []" by (simp add: tricky_cut_def)
  then show ?thesis
    by (simp add: extract_playlist_links_def tricky_get tricky_find
        tricky_cut_invalid Let_def)
qed

text \<open>
  Claim C1, as stated, speaks of every well-formed embedded data blob. The pattern of
  line 81 ends the blob at the first \<^verbatim>\<open>};\<close>: on the second page the blob is
  well-formed and its one record has a video identifier, but its title holds
  \<^verbatim>\<open>};\<close>, the text cut out is not valid JSON, and \<^verbatim>\<open>extract_playlist_links\<close> returns
  no entry where the claim says one.
\<close>

theorem extract_cut_blob_counterexample:
  "requests_get example_env tricky_url = Inr \<lparr>resp_text = tricky_page, http_error = None\<rparr>
 \<and> script_strings example_env tricky_page = [Some tricky_script]
 \<and> tricky_script = ''var ytInitialData = '' @ tricky_blob @ '';''
 \<and> json_loads example_env tricky_blob = Inr tricky_data
 \<and> json_path items_path tricky_data = Some (JArr tricky_items)
 \<and> list_all wf_item tricky_items
 \<and> spec_entries tricky_items
     = [\<lparr>title = JStr ''a};b'', link = ''https://www.youtube.com/watch?v=abc123''\<rparr>]
 \<and> fst (extract_playlist_links example_env tricky_url empty_world) = Inr []"
proof -
  have "json_path items_path tricky_data = Some (JArr tricky_items)"
    by (simp add: items_path_def tricky_data_def)
  moreover have "list_all wf_item tricky_items"
    by (simp add: tricky_items_def wf_item_def obj_along_def opt_obj_def is_obj_def
        title_path_def video_id_path_def)
  moreover have "spec_entries tricky_items
     = [\<lparr>title = JStr ''a};b'', link = ''https://www.youtube.com/watch?v=abc123''\<rparr>]"
    by (simp add: spec_entries_def spec_entry_def spec_video_id_def spec_title_def
        tricky_items_def title_path_def video_id_path_def watch_prefix_def)
  moreover have "tricky_script = ''var ytInitialData = '' @ tricky_blob @ '';''"
    by (simp add: tricky_script_def)
  ultimately show ?thesis
    using tricky_get tricky_scripts tricky_loads tricky_extract by (simp only: simp_thms)
qed

text \<open>
  Claim C1, amended. Let the first script element that holds the text
  \<^verbatim>\<open>var ytInitialData = {\<close> assign, at the first occurrence of that text, a blob that
  is on one line, holds no \<^verbatim>\<open>};\<close> and is followed by \<^verbatim>\<open>;\<close>. When the page is fetched,
  the blob parses and the fixed path leads to a list of \<open>N\<close> well-formed item records
  of which \<open>K\<close> have a non-empty video identifier, \<^verbatim>\<open>extract_playlist_links\<close> returns
  exactly the entries of those \<open>K\<close> records, in the order of the records: each with
  the record's title, or the placeholder \<^verbatim>\<open>No Title\<close> when the record has none, and
  with the watch address of its identifier. A record without identifier, or with an
  empty one, gives no entry.
\<close>

theorem extract_wellformed_blob:
  assumes "requests_get E url = Inr resp" and "http_error resp = None"
    and "script_strings E (resp_text resp) = before @ Some script # after"
    and "\<forall>t\<in>set before. \<not> holds_assignment t"
    and "script = pre @ ''var ytInitialData = '' @ blob @ '';'' @ post"
    and "first_index assignment_head script = Some (length pre)"
    and "blob = ''{'' @ body @ ''}''"
    and "newline \<notin> set blob" and "\<not> contains ''};'' blob"
    and "json_loads E blob = Inr data"
    and "json_path items_path data = Some (JArr items)"
    and "\<forall>item\<in>set items. wf_item item"
  shows "fst (extract_playlist_links E url w) = Inr (spec_entries items)
       \<and> length (spec_entries items)
           = length (filter (\<lambda>item. spec_video_id item \<noteq> []) items)"
proof -
  have "find_playlist_data (script_strings E (resp_text resp)) = Some blob"
    unfolding assms(3) using assms(4-9) by (rule find_playlist_data_whole)
  then show ?thesis
    using extract_parsed[OF assms(1,2) _ assms(10), of w] videos_of_data_wf[OF assms(11,12), of E]
    by (simp add: spec_entries_def)
qed

lemma example_blob_body: "example_blob = ''{'' @ butlast (tl example_blob) @ ''}''"
  by (simp add: example_blob_def)

lemma example_blob_one_line: "newline \<notin> set example_blob"
  by (simp add: example_blob_def newline_def)

lemma example_blob_no_end: "\<not> contains ''};'' example_blob"
  by (simp add: example_blob_def)

lemma example_script2_index: "first_index assignment_head example_script2 = Some (length ([] :: string))"
  by (simp add: example_script2_def example_blob_def assignment_head_def)

lemma example_before: "\<forall>t\<in>set [None, Some example_script1]. \<not> holds_assignment t"
  by (simp add: holds_assignment_def example_script1_def assignment_head_def)

theorem extract_wellformed_blob_witness:
  "fst (extract_playlist_links example_env example_url empty_world) =
     Inr [\<lparr>title = JStr ''Song A'', link = ''https://www.youtube.com/watch?v=abc123''\<rparr>,
          \<lparr>title = JStr ''No Title'', link = ''https://www.youtube.com/watch?v=xyz789''\<rparr>]
   \<and> length (filter (\<lambda>item. spec_video_id item \<noteq> []) example_items) = 2
   \<and> length example_items = 3"
proof -
  have h2: "http_error \<lparr>resp_text = example_page, http_error = None\<rparr> = None"
    by simp
  have ss: "script_strings example_env (resp_text \<lparr>resp_text = example_page, http_error = None\<rparr>)
      = [None, Some example_script1] @ Some example_script2 # []"
    by (simp add: example_scripts)
  have sc: "example_script2 = [] @ ''var ytInitialData = '' @ example_blob @ '';'' @ []"
    by (simp add: example_script2_def)
  have k: "length (filter (\<lambda>item. spec_video_id item \<noteq> []) example_items) = 2"
    by (simp add: example_items_def spec_video_id_def video_id_path_def)
  have n: "length example_items = 3"
    by (simp add: example_items_def)
  show ?thesis
    using extract_wellformed_blob[OF example_get h2 ss example_before sc example_script2_index
        example_blob_body example_blob_one_line example_blob_no_end example_loads
        example_items_path example_items_wf, of empty_world]
    by (simp add: example_spec_entries k n)
qed

text \<open>
  Claim C2. \<^verbatim>\<open>extract_playlist_links\<close> returns the empty list, and raises nothing, when
  the request raises, when the status of the response is an error, when no script
  element contains the marker, when the blob found is not valid JSON, and when a key
  of the fixed path is missing from the parsed data.
\<close>

theorem extract_empty_on_failure:
  "(requests_get E url = Inl msg \<longrightarrow> fst (extract_playlist_links E url w) = Inr [])
 \<and> (requests_get E url = Inr resp \<and> http_error resp = Some msg
      \<longrightarrow> fst (extract_playlist_links E url w) = Inr [])
 \<and> (requests_get E url = Inr resp
      \<and> first_marker_script (script_strings E (resp_text resp)) = None
      \<longrightarrow> fst (extract_playlist_links E url w) = Inr [])
 \<and> (requests_get E url = Inr resp
      \<and> find_playlist_data (script_strings E (resp_text resp)) = Some blob
      \<and> json_loads E blob = Inl msg
      \<longrightarrow> fst (extract_playlist_links E url w) = Inr [])
 \<and> (requests_get E url = Inr resp
      \<and> find_playlist_data (script_strings E (resp_text resp)) = Some blob
      \<and> json_loads E blob = Inr data \<and> key_missing items_path data
      \<longrightarrow> fst (extract_playlist_links E url w) = Inr [])"
  by (auto simp: extract_playlist_links_def Let_def videos_of_data_missing
      find_playlist_data_no_marker split: option.splits sum.splits)

theorem extract_empty_on_failure_witness:
  "fst (extract_playlist_links example_env (JStr ''https://x/unreachable'') empty_world) = Inr []
 \<and> fst (extract_playlist_links
      (example_env\<lparr>requests_get := \<lambda>u. Inr \<lparr>resp_text = example_page,
                                               http_error = Some ''404 Client Error''\<rparr>\<rparr>)
      example_url empty_world) = Inr []
 \<and> fst (extract_playlist_links
      (example_env\<lparr>script_strings := \<lambda>h. [None, Some ''var x = 1;'']\<rparr>)
      example_url empty_world) = Inr []
 \<and> fst (extract_playlist_links
      (example_env\<lparr>json_loads := \<lambda>s. Inl ''Expecting value''\<rparr>)
      example_url empty_world) = Inr []
 \<and> fst (extract_playlist_links
      (example_env\<lparr>json_loads := \<lambda>s. Inr (JObj [(''contents'', JObj [])])\<rparr>)
      example_url empty_world) = Inr []"
proof -
  let ?r = "\<lparr>resp_text = example_page, http_error = None\<rparr>"
  have a: "fst (extract_playlist_links example_env (JStr ''https://x/unreachable'') empty_world) = Inr []"
    using extract_empty_on_failure[of example_env "JStr ''https://x/unreachable''" "''connection refused''" empty_world]
    by (simp add: example_unreachable)
  have b: "fst (extract_playlist_links
      (example_env\<lparr>requests_get := \<lambda>u. Inr \<lparr>resp_text = example_page,
                                               http_error = Some ''404 Client Error''\<rparr>\<rparr>)
      example_url empty_world) = Inr []"
    using extract_empty_on_failure[of "example_env\<lparr>requests_get := \<lambda>u. Inr \<lparr>resp_text = example_page,
                                               http_error = Some ''404 Client Error''\<rparr>\<rparr>" example_url
        "''404 Client Error''" empty_world "\<lparr>resp_text = example_page, http_error = Some ''404 Client Error''\<rparr>"]
    by simp
  have c: "fst (extract_playlist_links
      (example_env\<lparr>script_strings := \<lambda>h. [None, Some ''var x = 1;'']\<rparr>)
      example_url empty_world) = Inr []"
    using extract_empty_on_failure[of "example_env\<lparr>script_strings := \<lambda>h. [None, Some ''var x = 1;'']\<rparr>"
        example_url _ empty_world ?r]
    by (simp add: example_get marker_def)
  have d: "fst (extract_playlist_links
      (example_env\<lparr>json_loads := \<lambda>s. Inl ''Expecting value''\<rparr>)
      example_url empty_world) = Inr []"
    using extract_empty_on_failure[of "example_env\<lparr>json_loads := \<lambda>s. Inl ''Expecting value''\<rparr>"
        example_url "''Expecting value''" empty_world ?r example_blob]
    by (simp add: example_get example_find)
  have e: "fst (extract_playlist_links
      (example_env\<lparr>json_loads := \<lambda>s. Inr (JObj [(''contents'', JObj [])])\<rparr>)
      example_url empty_world) = Inr []"
    using extract_empty_on_failure[of "example_env\<lparr>json_loads := \<lambda>s. Inr (JObj [(''contents'', JObj [])])\<rparr>"
        example_url _ empty_world ?r example_blob "JObj [(''contents'', JObj [])]"]
    by (simp add: example_get example_find items_path_def)
  from a b c d e show ?thesis by (simp only: simp_thms)
qed

lemma example_first_marker:
  "first_marker_script [None, Some example_script1, Some example_script2] = Some example_script1"
  by (simp add: example_script1_def marker_def)

lemma example_script1_no_match: "re_search example_script1 = None"
  by (simp add: example_script1_def match_at_def assignment_head_def)

text \<open>
  Claim C3, as stated: when the pattern does not match in the first script element
  that contains the marker, \<^verbatim>\<open>extract_playlist_links\<close> returns the empty list and does
  not look at a later script element. The loop of lines 79 to 84 leaves only at a
  match, so it goes on: on the example page the first script with the marker does not
  match, and the entries come from the second.
\<close>

theorem later_script_counterexample:
  "requests_get example_env example_url = Inr \<lparr>resp_text = example_page, http_error = None\<rparr>
 \<and> script_strings example_env example_page = [None, Some example_script1, Some example_script2]
 \<and> first_marker_script [None, Some example_script1, Some example_script2] = Some example_script1
 \<and> re_search example_script1 = None
 \<and> fst (extract_playlist_links example_env example_url empty_world) \<noteq> Inr []"
proof -
  have "fst (extract_playlist_links example_env example_url empty_world) \<noteq> Inr []"
    by (simp add: example_extract)
  then show ?thesis
    using example_get example_scripts example_first_marker example_script1_no_match
    by (simp only: simp_thms)
qed

text \<open>
  Claim C3, amended. The blob is group 1 of the pattern in the first script element
  that both contains the marker and matches the pattern; script elements that contain
  the marker without matching are passed over. The match is the shortest one: the
  blob holds no \<^verbatim>\<open>};\<close>. When no script element contains the marker and matches,
  \<^verbatim>\<open>extract_playlist_links\<close> returns the empty list.
\<close>

theorem extract_first_matching_script:
  "find_playlist_data tags =
     (case first_matching_script tags of None \<Rightarrow> None | Some s \<Rightarrow> re_search s)
 \<and> (find_playlist_data tags = Some g \<longrightarrow> \<not> contains ''};'' g)
 \<and> (requests_get E url = Inr resp
      \<and> first_matching_script (script_strings E (resp_text resp)) = None
      \<longrightarrow> fst (extract_playlist_links E url w) = Inr [])"
proof -
  have "fst (extract_playlist_links E url w) = Inr []"
    if "requests_get E url = Inr resp"
      and "first_matching_script (script_strings E (resp_text resp)) = None"
  proof -
    have "find_playlist_data (script_strings E (resp_text resp)) = None"
      using that(2) by (simp add: find_playlist_data_matching)
    then show ?thesis
      using that(1) by (simp add: extract_playlist_links_def Let_def split: option.splits)
  qed
  then show ?thesis
    using find_playlist_data_matching[of tags] find_playlist_data_shortest[of tags g] by blast
qed

theorem extract_first_matching_script_witness:
  "find_playlist_data [None, Some example_script1, Some example_script2] = re_search example_script2
 \<and> \<not> contains ''};'' example_blob
 \<and> fst (extract_playlist_links
      (example_env\<lparr>script_strings := \<lambda>h. [None, Some example_script1]\<rparr>)
      example_url empty_world) = Inr []"
proof -
  have m: "first_matching_script [None, Some example_script1, Some example_script2] = Some example_script2"
    using example_scripts_found
    by (simp add: example_script1_no_match find_playlist_data_matching split: if_splits option.splits)
  have a: "find_playlist_data [None, Some example_script1, Some example_script2] = re_search example_script2"
    using extract_first_matching_script[of "[None, Some example_script1, Some example_script2]"]
    by (simp only: m option.case)
  have b: "\<not> contains ''};'' example_blob"
    using extract_first_matching_script[of "[None, Some example_script1, Some example_script2]" example_blob]
      example_scripts_found by blast
  have c: "fst (extract_playlist_links
      (example_env\<lparr>script_strings := \<lambda>h. [None, Some example_script1]\<rparr>)
      example_url empty_world) = Inr []"
    using extract_first_matching_script[of _ _ "example_env\<lparr>script_strings := \<lambda>h. [None, Some example_script1]\<rparr>"
        example_url "\<lparr>resp_text = example_page, http_error = None\<rparr>" empty_world]
    by (simp add: example_get example_script1_no_match)
  from a b c show ?thesis by (simp only: simp_thms)
qed

subsection \<open>Provisioning of the binary\<close>

lemma download_ffmpeg_present:
  "path_exists (fs w) (ffmpeg_folder @ [''ffmpeg.exe'']) \<Longrightarrow>
   download_ffmpeg E ffmpeg_folder w =
     (Inr (Some ffmpeg_folder), emit (Print ''FFmpeg is already downloaded and available.'') w)"
  by (simp add: download_ffmpeg_def)

lemma download_ffmpeg_present_twice:
  assumes "path_exists (fs w) (ffmpeg_folder @ [''ffmpeg.exe''])"
    and "download_ffmpeg E ffmpeg_folder w = (r1, w1)"
    and "download_ffmpeg E ffmpeg_folder w1 = (r2, w2)"
  shows "r1 = Inr (Some ffmpeg_folder) \<and> r2 = r1 \<and> network_calls w2 = network_calls w"
proof -
  have 1: "r1 = Inr (Some ffmpeg_folder)"
    and w1: "w1 = emit (Print ''FFmpeg is already downloaded and available.'') w"
    using assms(1,2) by (simp_all add: download_ffmpeg_present)
  then have "path_exists (fs w1) (ffmpeg_folder @ [''ffmpeg.exe''])"
    using assms(1) by (simp add: emit_def)
  then have "r2 = Inr (Some ffmpeg_folder)"
    and "w2 = emit (Print ''FFmpeg is already downloaded and available.'') w1"
    using assms(3) by (simp_all add: download_ffmpeg_present)
  then show ?thesis
    using 1 w1 by (simp add: network_calls_def emit_def)
qed

lemma release_first_call:
  "download_ffmpeg example_env [''ffmpeg_bin''] \<lparr>fs = Dir [], trace = tr\<rparr> =
     (Inr (Some release_dir), \<lparr>fs = release_tree, trace = tr @ release_trace\<rparr>)"
  by (simp add: download_ffmpeg_def example_env_def example_url_def tricky_url_def ffmpeg_url_def
      path_exists_def emit_def
      ffmpeg_zip_def release_archive_def os_walk_def has_binary_def is_file_def
      release_dir_def release_tree_def release_bin_def release_trace_def Let_def)

lemma release_second_call:
  "download_ffmpeg example_env [''ffmpeg_bin''] \<lparr>fs = release_tree, trace = tr\<rparr> =
     (Inr (Some release_dir), \<lparr>fs = release_tree, trace = tr @ release_trace\<rparr>)"
  by (simp add: download_ffmpeg_def example_env_def example_url_def tricky_url_def ffmpeg_url_def
      path_exists_def emit_def
      ffmpeg_zip_def release_archive_def os_walk_def has_binary_def is_file_def
      release_dir_def release_tree_def release_bin_def release_trace_def Let_def)

text \<open>
  Claim C4 fails after a first successful call. With the release archive the first
  call, on an empty working directory, fetches the archive once and returns the
  \<^verbatim>\<open>bin\<close> directory that holds \<^verbatim>\<open>ffmpeg.exe\<close>; the test of line 20 looks for
  \<^verbatim>\<open>ffmpeg_bin/ffmpeg.exe\<close> only, which that call has not created, so the second call
  fetches the archive again.
\<close>

theorem download_ffmpeg_fetches_again:
  "download_ffmpeg example_env [''ffmpeg_bin''] empty_world =
     (Inr (Some release_dir), \<lparr>fs = release_tree, trace = release_trace\<rparr>)
 \<and> network_calls \<lparr>fs = release_tree, trace = release_trace\<rparr> = 1
 \<and> \<not> path_exists release_tree [''ffmpeg_bin'', ''ffmpeg.exe'']
 \<and> fs_lookup release_tree (release_dir @ [''ffmpeg.exe'']) = Some (File ''MZ'')
 \<and> download_ffmpeg example_env [''ffmpeg_bin''] \<lparr>fs = release_tree, trace = release_trace\<rparr> =
     (Inr (Some release_dir), \<lparr>fs = release_tree, trace = release_trace @ release_trace\<rparr>)
 \<and> network_calls \<lparr>fs = release_tree, trace = release_trace @ release_trace\<rparr> = 2"
proof -
  have "download_ffmpeg example_env [''ffmpeg_bin''] empty_world =
     (Inr (Some release_dir), \<lparr>fs = release_tree, trace = release_trace\<rparr>)"
    using release_first_call[of "[]"] by (simp add: empty_world_def)
  moreover have "network_calls \<lparr>fs = release_tree, trace = release_trace\<rparr> = 1"
    and "network_calls \<lparr>fs = release_tree, trace = release_trace @ release_trace\<rparr> = 2"
    by (simp_all add: network_calls_def release_trace_def)
  moreover have "\<not> path_exists release_tree [''ffmpeg_bin'', ''ffmpeg.exe'']"
    and "fs_lookup release_tree (release_dir @ [''ffmpeg.exe'']) = Some (File ''MZ'')"
    by (simp_all add: path_exists_def release_tree_def release_bin_def release_dir_def)
  ultimately show ?thesis
    using release_second_call[of release_trace] by (simp only: simp_thms)
qed

subsection \<open>Downloads\<close>

lemma audio_loop_trace:
  "audio_loop E videos ffmpeg_path download_folder w =
     w\<lparr>trace := trace w @ concat (map (audio_events E ffmpeg_path download_folder) videos)\<rparr>"
proof (induction videos arbitrary: w)
  case Nil
  then show ?case by simp
next
  case (Cons v vs)
  show ?case
    by (cases "ydl_download E (audio_opts E download_folder ffmpeg_path (title v)) (link v)")
       (simp_all add: Cons.IH Let_def emit_def audio_events_def audio_attempt_def audio_report_def)
qed

lemma video_loop_trace:
  "video_loop E videos ffmpeg_path download_folder w =
     w\<lparr>trace := trace w @ concat (map (video_events E ffmpeg_path download_folder) videos)\<rparr>"
proof (induction videos arbitrary: w)
  case Nil
  then show ?case by simp
next
  case (Cons v vs)
  show ?case
    by (cases "ydl_download E (video_opts E download_folder ffmpeg_path (title v)) (link v)")
       (simp_all add: Cons.IH Let_def emit_def video_events_def video_attempt_def video_report_def)
qed

lemma filter_audio_events:
  "filter is_download (concat (map (audio_events E p f) videos)) = map (audio_attempt E p f) videos"
  by (induction videos)
     (simp_all add: audio_events_def audio_attempt_def audio_report_def split: option.splits)

lemma filter_video_events:
  "filter is_download (concat (map (video_events E p f) videos)) = map (video_attempt E p f) videos"
  by (induction videos)
     (simp_all add: video_events_def video_attempt_def video_report_def split: option.splits)

lemma ensure_folder_cases:
  "ensure_folder f w =
     (if path_exists (fs w) f then (Inr (), w)
      else case fs_makedirs (fs w) f of
             None \<Rightarrow> (Inl OSError, w\<lparr>trace := trace w @ [Os_makedirs f]\<rparr>)
           | Some t \<Rightarrow> (Inr (), \<lparr>fs = t, trace = trace w @ [Os_makedirs f]\<rparr>))"
  by (simp add: ensure_folder_def emit_def Let_def split: option.splits)

lemma ensure_folder_ok:
  assumes "path_exists (fs w) f \<or> fs_makedirs (fs w) f \<noteq> None"
  shows "\<exists>w1. ensure_folder f w = (Inr (), w1) \<and> downloads w1 = downloads w
      \<and> (\<forall>e. e \<in> set (trace w) \<longrightarrow> e \<in> set (trace w1))"
  using assms by (auto simp: ensure_folder_cases downloads_def)

lemma download_audio_ok:
  assumes "path_exists (fs w) f \<or> fs_makedirs (fs w) f \<noteq> None"
  shows "fst (download_audio E videos p f w) = Inr ()"
    and "downloads (snd (download_audio E videos p f w)) = downloads w @ map (audio_attempt E p f) videos"
    and "v \<in> set videos \<Longrightarrow> audio_report E p f v \<in> set (trace (snd (download_audio E videos p f w)))"
proof -
  obtain w1 where w1: "ensure_folder f w = (Inr (), w1)" "downloads w1 = downloads w"
    using ensure_folder_ok[OF assms] by blast
  then have d: "download_audio E videos p f w = (Inr (), audio_loop E videos p f w1)"
    by (simp add: download_audio_def)
  show "fst (download_audio E videos p f w) = Inr ()" by (simp add: d)
  show "downloads (snd (download_audio E videos p f w)) = downloads w @ map (audio_attempt E p f) videos"
    using w1(2) by (simp add: d audio_loop_trace downloads_def filter_audio_events)
  show "audio_report E p f v \<in> set (trace (snd (download_audio E videos p f w)))" if "v \<in> set videos"
    using that by (auto simp: d audio_loop_trace audio_events_def)
qed

lemma download_video_ok:
  assumes "path_exists (fs w) f \<or> fs_makedirs (fs w) f \<noteq> None"
  shows "fst (download_video E videos p f w) = Inr ()"
    and "downloads (snd (download_video E videos p f w)) = downloads w @ map (video_attempt E p f) videos"
    and "v \<in> set videos \<Longrightarrow> video_report E p f v \<in> set (trace (snd (download_video E videos p f w)))"
proof -
  obtain w1 where w1: "ensure_folder f w = (Inr (), w1)" "downloads w1 = downloads w"
    using ensure_folder_ok[OF assms] by blast
  then have d: "download_video E videos p f w = (Inr (), video_loop E videos p f w1)"
    by (simp add: download_video_def)
  show "fst (download_video E videos p f w) = Inr ()" by (simp add: d)
  show "downloads (snd (download_video E videos p f w)) = downloads w @ map (video_attempt E p f) videos"
    using w1(2) by (simp add: d video_loop_trace downloads_def filter_video_events)
  show "video_report E p f v \<in> set (trace (snd (download_video E videos p f w)))" if "v \<in> set videos"
    using that by (auto simp: d video_loop_trace video_events_def)
qed

text \<open>
  Claim C5. When the output directory is there or can be created, \<^verbatim>\<open>download_audio\<close>
  and \<^verbatim>\<open>download_video\<close> return without raising, whatever the downloader does; they
  call the downloader once for every entry, in the order of the entries, whether
  earlier entries failed or not; and for every entry the line printed after its download
  is in the output: the success line with the entry's title, or the error line with the
  entry's title and the error.
\<close>

theorem download_isolates_failures:
  assumes "path_exists (fs w) download_folder \<or> fs_makedirs (fs w) download_folder \<noteq> None"
  shows "fst (download_audio E videos ffmpeg_path download_folder w) = Inr ()
    \<and> downloads (snd (download_audio E videos ffmpeg_path download_folder w))
        = downloads w @ map (audio_attempt E ffmpeg_path download_folder) videos
    \<and> (\<forall>v\<in>set videos. audio_report E ffmpeg_path download_folder v
          \<in> set (trace (snd (download_audio E videos ffmpeg_path download_folder w))))
    \<and> fst (download_video E videos ffmpeg_path download_folder w) = Inr ()
    \<and> downloads (snd (download_video E videos ffmpeg_path download_folder w))
        = downloads w @ map (video_attempt E ffmpeg_path download_folder) videos
    \<and> (\<forall>v\<in>set videos. video_report E ffmpeg_path download_folder v
          \<in> set (trace (snd (download_video E videos ffmpeg_path download_folder w))))"
  using download_audio_ok[OF assms] download_video_ok[OF assms] by simp

theorem download_isolates_failures_witness:
  "fst (download_audio example_env example_videos release_dir [''music''] empty_world) = Inr ()
 \<and> downloads (snd (download_audio example_env example_videos release_dir [''music''] empty_world))
     = map (audio_attempt example_env release_dir [''music'']) example_videos
 \<and> Print ''Downloaded audio: Song A''
     \<in> set (trace (snd (download_audio example_env example_videos release_dir [''music''] empty_world)))
 \<and> Print ''Error downloading audio No Title: Video unavailable''
     \<in> set (trace (snd (download_audio example_env example_videos release_dir [''music''] empty_world)))
 \<and> Print ''Downloaded audio: Song C''
     \<in> set (trace (snd (download_audio example_env example_videos release_dir [''music''] empty_world)))
 \<and> fst (download_video example_env example_videos release_dir [''music''] empty_world) = Inr ()
 \<and> downloads (snd (download_video example_env example_videos release_dir [''music''] empty_world))
     = map (video_attempt example_env release_dir [''music'']) example_videos
 \<and> Print ''Downloaded video: Song A''
     \<in> set (trace (snd (download_video example_env example_videos release_dir [''music''] empty_world)))
 \<and> Print ''Error downloading video No Title: Video unavailable''
     \<in> set (trace (snd (download_video example_env example_videos release_dir [''music''] empty_world)))
 \<and> Print ''Downloaded video: Song C''
     \<in> set (trace (snd (download_video example_env example_videos release_dir [''music''] empty_world)))"
proof -
  have h: "path_exists (fs empty_world) [''music''] \<or> fs_makedirs (fs empty_world) [''music''] \<noteq> None"
    by (simp add: empty_world_def fs_makedirs_def)
  have d: "downloads empty_world = []"
    by (simp add: downloads_def empty_world_def)
  have a: "audio_report example_env release_dir [''music''] (example_videos ! 0) = Print ''Downloaded audio: Song A''"
    "audio_report example_env release_dir [''music''] (example_videos ! 1) = Print ''Error downloading audio No Title: Video unavailable''"
    "audio_report example_env release_dir [''music''] (example_videos ! 2) = Print ''Downloaded audio: Song C''"
    by (simp_all add: audio_report_def example_videos_def example_env_def)
  have v: "video_report example_env release_dir [''music''] (example_videos ! 0) = Print ''Downloaded video: Song A''"
    "video_report example_env release_dir [''music''] (example_videos ! 1) = Print ''Error downloading video No Title: Video unavailable''"
    "video_report example_env release_dir [''music''] (example_videos ! 2) = Print ''Downloaded video: Song C''"
    by (simp_all add: video_report_def example_videos_def example_env_def)
  have m: "example_videos ! 0 \<in> set example_videos" "example_videos ! 1 \<in> set example_videos"
    "example_videos ! 2 \<in> set example_videos"
    by (simp_all add: example_videos_def)
  show ?thesis
    using download_isolates_failures[OF h, of example_env example_videos release_dir] m
    unfolding d append_Nil a[symmetric] v[symmetric] by blast
qed

lemma new_dirs_lookup:
  "fs_lookup (new_dirs xs) q = (if prefix q xs then Some (new_dirs (drop (length q) xs)) else None)"
proof (induction xs arbitrary: q)
  case Nil
  then show ?case by (cases q) simp_all
next
  case (Cons x xs)
  then show ?case by (cases q) simp_all
qed

lemma map_of_snoc:
  "map_of es x = None \<Longrightarrow> map_of (es @ [(x, v)]) y = (if y = x then Some v else map_of es y)"
  by (simp add: map_add_def split: option.splits)

lemma makedirs_at_lookup:
  "makedirs_at n p = Some t \<Longrightarrow> fs_lookup t p = Some (Dir [])"
proof (induction n p arbitrary: t rule: makedirs_at.induct)
  case (1 n)
  then show ?case by simp
next
  case (2 c x xs)
  then show ?case by simp
next
  case (3 es x xs)
  show ?case
  proof (cases "map_of es x")
    case None
    then have "t = Dir (es @ [(x, new_dirs xs)])" using "3.prems" by simp
    then show ?thesis using None by (simp add: map_of_snoc new_dirs_lookup del: map_of_append)
  next
    case (Some n)
    then obtain n' where "makedirs_at n xs = Some n'" "t = Dir (AList.update x n' es)"
      using "3.prems" by auto
    then show ?thesis using "3.IH"[OF Some] by (simp add: update_conv')
  qed
qed

lemma makedirs_at_frame:
  "makedirs_at n p = Some t \<Longrightarrow> \<not> prefix q p \<Longrightarrow> fs_lookup t q = fs_lookup n q"
proof (induction n p arbitrary: t q rule: makedirs_at.induct)
  case (1 n)
  then show ?case by simp
next
  case (2 c x xs)
  then show ?case by simp
next
  case (3 es x xs)
  from "3.prems"(2) obtain y ys where q: "q = y # ys" by (cases q) auto
  show ?case
  proof (cases "map_of es x")
    case None
    then have t: "t = Dir (es @ [(x, new_dirs xs)])" using "3.prems" by simp
    show ?thesis
    proof (cases "y = x")
      case True
      then show ?thesis using None t q "3.prems"(2)
        by (simp add: map_of_snoc new_dirs_lookup del: map_of_append)
    next
      case False
      then show ?thesis using None t q by (simp add: map_of_snoc del: map_of_append)
    qed
  next
    case (Some n)
    then obtain n' where n': "makedirs_at n xs = Some n'" "t = Dir (AList.update x n' es)"
      using "3.prems" by auto
    show ?thesis
    proof (cases "y = x")
      case True
      then show ?thesis using "3.IH"[OF Some n'(1), of ys] "3.prems"(2) n'(2) q Some
        by (simp add: update_conv')
    next
      case False
      then show ?thesis using n'(2) q by (simp add: update_conv')
    qed
  qed
qed

text \<open>
  Claim C10. When the output directory is absent and \<^verbatim>\<open>os.makedirs\<close> succeeds,
  \<^verbatim>\<open>download_audio\<close> and \<^verbatim>\<open>download_video\<close> over no entries are not without
  effect: they return with the directory created, empty, with nothing printed and no
  download, and with every path that does not lead to the new directory as it was. Over
  any list of entries the creation comes before the first entry is processed.
\<close>

theorem download_creates_folder:
  assumes "\<not> path_exists (fs w) download_folder"
    and "fs_makedirs (fs w) download_folder = Some t"
  shows "download_audio E [] ffmpeg_path download_folder w
           = (Inr (), \<lparr>fs = t, trace = trace w @ [Os_makedirs download_folder]\<rparr>)
    \<and> download_video E [] ffmpeg_path download_folder w
           = (Inr (), \<lparr>fs = t, trace = trace w @ [Os_makedirs download_folder]\<rparr>)
    \<and> fs_lookup t download_folder = Some (Dir [])
    \<and> (\<forall>q. \<not> prefix q download_folder \<longrightarrow> fs_lookup t q = fs_lookup (fs w) q)
    \<and> download_audio E videos ffmpeg_path download_folder w
         = (Inr (), \<lparr>fs = t, trace = trace w @ Os_makedirs download_folder
               # concat (map (audio_events E ffmpeg_path download_folder) videos)\<rparr>)
    \<and> download_video E videos ffmpeg_path download_folder w
         = (Inr (), \<lparr>fs = t, trace = trace w @ Os_makedirs download_folder
               # concat (map (video_events E ffmpeg_path download_folder) videos)\<rparr>)"
proof -
  have e: "ensure_folder download_folder w
      = (Inr (), \<lparr>fs = t, trace = trace w @ [Os_makedirs download_folder]\<rparr>)"
    using assms by (simp add: ensure_folder_cases)
  have "fs_lookup t download_folder = Some (Dir [])"
    using assms(2) by (simp add: fs_makedirs_def makedirs_at_lookup)
  moreover have "\<forall>q. \<not> prefix q download_folder \<longrightarrow> fs_lookup t q = fs_lookup (fs w) q"
    using assms(2) by (simp add: fs_makedirs_def makedirs_at_frame)
  ultimately show ?thesis
    by (simp add: download_audio_def download_video_def e audio_loop_trace video_loop_trace)
qed

theorem download_creates_folder_witness:
  "download_audio example_env [] release_dir [''music''] \<lparr>fs = release_tree, trace = release_trace\<rparr>
     = (Inr (), \<lparr>fs = Dir [(''ffmpeg_bin'', release_bin),
                          (''music'', Dir [])],
                trace = release_trace @ [Os_makedirs [''music'']]\<rparr>)
 \<and> download_video example_env [] release_dir [''videos''] \<lparr>fs = release_tree, trace = release_trace\<rparr>
     = (Inr (), \<lparr>fs = Dir [(''ffmpeg_bin'', release_bin),
                          (''videos'', Dir [])],
                trace = release_trace @ [Os_makedirs [''videos'']]\<rparr>)
 \<and> fs_lookup (Dir [(''ffmpeg_bin'', release_bin), (''music'', Dir [])])
       (release_dir @ [''ffmpeg.exe''])
     = fs_lookup release_tree (release_dir @ [''ffmpeg.exe''])
 \<and> fs_lookup (Dir [(''ffmpeg_bin'', release_bin), (''music'', Dir [])]) [''music'']
     = Some (Dir [])"
proof -
  let ?w = "\<lparr>fs = release_tree, trace = release_trace\<rparr>"
  have np: "\<not> prefix (release_dir @ [''ffmpeg.exe'']) [''music'']"
    by (simp add: release_dir_def)
  have a: "\<not> path_exists (fs ?w) [''music'']" "\<not> path_exists (fs ?w) [''videos'']"
    by (simp_all add: path_exists_def release_tree_def)
  have m: "fs_makedirs (fs ?w) [''music'']
      = Some (Dir [(''ffmpeg_bin'', release_bin), (''music'', Dir [])])"
    by (simp add: fs_makedirs_def release_tree_def)
  have v: "fs_makedirs (fs ?w) [''videos'']
      = Some (Dir [(''ffmpeg_bin'', release_bin), (''videos'', Dir [])])"
    by (simp add: fs_makedirs_def release_tree_def)
  show ?thesis
    using download_creates_folder[OF a(1) m, of example_env release_dir "[]"]
      download_creates_folder[OF a(2) v, of example_env release_dir "[]"] np
    by (simp del: fs_lookup.simps)
qed

subsection \<open>Configuration and driver\<close>

lemma open_at_file: "fs_lookup t p = Some (File bytes) \<Longrightarrow> open_at t p = Inr bytes"
  by (induction t p rule: open_at.induct) (auto split: option.splits)

lemma open_at_missing:
  "fs_lookup t p = None \<Longrightarrow> \<not> file_on_the_way t p \<Longrightarrow> open_at t p = Inl FileNotFoundError"
  by (induction t p rule: open_at.induct) (auto split: option.splits)

lemma open_at_through_file:
  "file_on_the_way t p \<Longrightarrow> p \<noteq> [] \<and> open_at t p = Inl NotADirectoryError"
  by (induction t p rule: open_at.induct) (auto split: option.splits)

lemma fs_open_read_file:
  "file_name \<noteq> [] \<Longrightarrow> fs_lookup t file_name = Some (File bytes) \<Longrightarrow>
   fs_open_read t file_name = Inr bytes"
  by (simp add: fs_open_read_def open_at_file)

lemma fs_open_read_missing:
  "\<not> path_exists t file_name \<Longrightarrow> \<not> file_on_the_way t file_name \<Longrightarrow>
   fs_open_read t file_name = Inl FileNotFoundError"
  by (auto simp: fs_open_read_def path_exists_def open_at_missing)

lemma fs_open_read_through_file:
  "file_on_the_way t file_name \<Longrightarrow> fs_open_read t file_name = Inl NotADirectoryError"
  using open_at_through_file[of t file_name] by (simp add: fs_open_read_def)

lemma read_json_file_parsed:
  "file_name \<noteq> [] \<Longrightarrow> fs_lookup (fs w) file_name = Some (File bytes) \<Longrightarrow>
   decode_text E bytes = Some content \<Longrightarrow> json_loads E content = Inr v \<Longrightarrow>
   read_json_file E file_name w = (Inr v, emit (Open_read file_name) w)"
  by (simp add: read_json_file_def fs_open_read_file Let_def)

lemma playlist_fields_wf:
  "wf_descriptor d \<Longrightarrow> playlist_fields d = Inr (JStr (spec_link d), JBool (spec_with_video d))"
  by (cases d)
     (auto simp: wf_descriptor_def playlist_fields_def spec_link_def spec_with_video_def
        split: option.splits json.splits)

text \<open>
  Claim C6. For a configuration file whose content decodes and parses to an array of
  well-formed descriptor objects, \<^verbatim>\<open>read_json_file\<close> returns that array: the same entries, as many
  and in the same order, which is also what the driver's loop iterates over. What the
  driver reads from each entry (lines 184-185) is the link and the flag of the
  specification's descriptor, and the flag is false for an entry without a
  \<^verbatim>\<open>with_video\<close> field.
\<close>

theorem read_json_file_descriptors:
  assumes "file_name \<noteq> []" and "fs_lookup (fs w) file_name = Some (File bytes)"
    and "decode_text E bytes = Some content"
    and "json_loads E content = Inr (JArr ds)"
    and "\<forall>d\<in>set ds. wf_descriptor d"
  shows "read_json_file E file_name w = (Inr (JArr ds), emit (Open_read file_name) w)
    \<and> py_iter (JArr ds) = Inr ds
    \<and> map playlist_fields ds = map (\<lambda>d. Inr (JStr (spec_link d), JBool (spec_with_video d))) ds
    \<and> (\<forall>d\<in>set ds. json_path [''with_video''] d = None
          \<longrightarrow> playlist_fields d = Inr (JStr (spec_link d), JBool False))"
proof -
  have "\<forall>d\<in>set ds. json_path [''with_video''] d = None \<longrightarrow> spec_with_video d = False"
    by (simp add: spec_with_video_def)
  then show ?thesis
    using assms by (simp add: read_json_file_parsed playlist_fields_wf)
qed

text \<open>
  Claim C7, as stated: \<^verbatim>\<open>read_json_file\<close> returns the empty list and raises nothing
  for a path that does not exist and for a file whose content is not valid JSON. A path
  that runs through a regular file does not exist, and \<^verbatim>\<open>open\<close> raises
  \<^verbatim>\<open>NotADirectoryError\<close> for it; a file of the single byte 255 is not valid JSON, and
  reading it raises \<^verbatim>\<open>UnicodeDecodeError\<close>. Neither is caught.
\<close>

theorem read_json_file_raises_counterexample:
  "\<not> path_exists (fs (configured_world ''[]'')) [''playlists.json'', ''x'']
 \<and> read_json_file example_env [''playlists.json'', ''x''] (configured_world ''[]'') =
     (Inl NotADirectoryError,
      \<lparr>fs = Dir [(''playlists.json'', File ''[]'')],
       trace = [Open_read [''playlists.json'', ''x'']]\<rparr>)
 \<and> json_loads example_env [CHR 0xFF] = Inl ''Expecting value''
 \<and> read_json_file example_env [''playlists.json''] (configured_world [CHR 0xFF]) =
     (Inl UnicodeDecodeError,
      \<lparr>fs = Dir [(''playlists.json'', File [CHR 0xFF])],
       trace = [Open_read [''playlists.json'']]\<rparr>)"
  by (simp add: read_json_file_def fs_open_read_def path_exists_def configured_world_def
      emit_def example_env_def example_blob_def tricky_blob_def example_config_def
      faulty_config_def Let_def)

text \<open>
  Claim C7, amended. \<^verbatim>\<open>read_json_file\<close> returns the empty list and raises nothing
  when the path does not exist and no regular file lies on the way along it, and when
  the file's bytes decode to a text that is not valid JSON; in both cases it only
  prints a diagnostic message. For a path through a regular file the
  \<^verbatim>\<open>NotADirectoryError\<close> of \<^verbatim>\<open>open\<close>, and for bytes that do not decode the
  \<^verbatim>\<open>UnicodeDecodeError\<close> of the read, leave the function.
\<close>

theorem read_json_file_degrades:
  "(\<not> path_exists (fs w) file_name \<and> \<not> file_on_the_way (fs w) file_name \<longrightarrow>
      read_json_file E file_name w =
        (Inr (JArr []),
         w\<lparr>trace := trace w @ [Open_read file_name,
                                Print (''File '' @ path_str file_name @ '' not found.'')]\<rparr>))
 \<and> (file_name \<noteq> [] \<and> fs_lookup (fs w) file_name = Some (File bytes)
      \<and> decode_text E bytes = Some content \<and> json_loads E content = Inl msg \<longrightarrow>
      read_json_file E file_name w =
        (Inr (JArr []),
         w\<lparr>trace := trace w @ [Open_read file_name,
              Print (''Error decoding JSON file '' @ path_str file_name @ '': '' @ msg)]\<rparr>))
 \<and> (file_on_the_way (fs w) file_name \<longrightarrow>
      read_json_file E file_name w =
        (Inl NotADirectoryError, w\<lparr>trace := trace w @ [Open_read file_name]\<rparr>))
 \<and> (file_name \<noteq> [] \<and> fs_lookup (fs w) file_name = Some (File bytes)
      \<and> decode_text E bytes = None \<longrightarrow>
      read_json_file E file_name w =
        (Inl UnicodeDecodeError, w\<lparr>trace := trace w @ [Open_read file_name]\<rparr>))"
  by (simp add: read_json_file_def fs_open_read_file fs_open_read_missing
      fs_open_read_through_file Let_def emit_def)

lemma process_playlists_append:
  "process_playlists E p (xs @ ys) w =
     (case process_playlists E p xs w of
        (Inl e, w1) \<Rightarrow> (Inl e, w1)
      | (Inr u, w1) \<Rightarrow> process_playlists E p ys w1)"
  by (induction xs arbitrary: w) (auto simp: Let_def split: sum.splits prod.splits)

lemma playlist_fields_no_link:
  "is_obj d \<Longrightarrow> json_path [''link''] d = None \<Longrightarrow> playlist_fields d = Inl (KeyError ''link'')"
  by (cases d) (auto simp: is_obj_def playlist_fields_def split: option.splits)

text \<open>
  Claim C9. \<^verbatim>\<open>read_json_file\<close> returns whatever array the file holds, its entries
  unchanged and unchecked. An entry that is a dictionary without a \<^verbatim>\<open>link\<close> key makes
  the driver raise \<^verbatim>\<open>KeyError\<close> at line 184, when the loop reaches that entry: the
  entries before it have been processed, those after it are not.
\<close>

theorem missing_link_fails_in_driver:
  "(file_name \<noteq> [] \<and> fs_lookup (fs w) file_name = Some (File bytes)
      \<and> decode_text E bytes = Some content
      \<and> json_loads E content = Inr (JArr ds) \<longrightarrow>
      read_json_file E file_name w = (Inr (JArr ds), emit (Open_read file_name) w))
 \<and> (is_obj d \<and> json_path [''link''] d = None
      \<and> process_playlists E p pre w0 = (Inr (), w1) \<longrightarrow>
      process_playlists E p (pre @ d # post) w0 = (Inl (KeyError ''link''), w1))"
  by (simp add: read_json_file_parsed process_playlists_append playlist_fields_no_link)

lemma extract_parsed_pair:
  assumes "requests_get E url = Inr resp" and "http_error resp = None"
    and "find_playlist_data (script_strings E (resp_text resp)) = Some blob"
    and "json_loads E blob = Inr data"
  shows "extract_playlist_links E url w = (videos_of_data E data, emit (Requests_get url) w)"
proof -
  have "blob \<noteq> []" using assms(3) by (rule find_playlist_data_nonempty)
  then show ?thesis
    using assms by (simp add: extract_playlist_links_def Let_def)
qed

lemma example_extract_pair:
  "extract_playlist_links example_env example_url w =
     (Inr example_entries, emit (Requests_get example_url) w)"
  using extract_parsed_pair[OF example_get _ example_find_resp example_loads, of w]
    videos_of_data_wf[OF example_items_path example_items_wf, of example_env]
  by (simp add: example_spec_entries example_entries_def)

lemma extract_world:
  "\<exists>out. snd (extract_playlist_links E url w) = w\<lparr>trace := trace w @ Requests_get url # out\<rparr>
     \<and> filter is_download out = []"
  by (auto simp: extract_playlist_links_def Let_def emit_def split: sum.splits option.splits)

lemma extract_fst:
  "fst (extract_playlist_links E url w) = extracted E url"
  by (simp add: extract_playlist_links_def extracted_def Let_def split: sum.splits option.splits)

lemma download_audio_downloads:
  "download_audio E videos p f w = (Inr u, w') \<Longrightarrow>
   downloads w' = downloads w @ map (audio_attempt E p f) videos"
  by (auto simp: download_audio_def ensure_folder_cases audio_loop_trace downloads_def
      filter_audio_events split: if_splits option.splits)

lemma download_video_downloads:
  "download_video E videos p f w = (Inr u, w') \<Longrightarrow>
   downloads w' = downloads w @ map (video_attempt E p f) videos"
  by (auto simp: download_video_def ensure_folder_cases video_loop_trace downloads_def
      filter_video_events split: if_splits option.splits)

lemma process_playlists_downloads:
  "process_playlists E p ds w = (Inr u, w') \<Longrightarrow>
   downloads w' = downloads w @ concat (map (descriptor_downloads E p) ds)"
proof (induction ds arbitrary: w)
  case Nil
  then show ?case by simp
next
  case (Cons d ds)
  from Cons.prems obtain url flag where pf: "playlist_fields d = Inr (url, flag)"
    by (auto split: sum.splits)
  define w1 where "w1 = emit (Print (''Processing playlist: '' @ fstr E url
                                @ '' | With video: '' @ fstr E flag)) w"
  obtain r w2 where ex: "extract_playlist_links E url w1 = (r, w2)" by force
  with Cons.prems pf obtain videos where r: "r = Inr videos"
    by (cases r) (auto simp: w1_def Let_def)
  have vs: "extracted E url = Inr videos"
    using extract_fst[of E url w1] ex r by simp
  have d2: "downloads w2 = downloads w"
    using extract_world[of E url w1] ex by (auto simp: downloads_def w1_def emit_def)
  obtain r3 w3 where dl: "(if truthy flag then download_video E videos p [''videos''] w2
                     else download_audio E videos p [''music''] w2) = (r3, w3)" by force
  with Cons.prems pf ex r obtain u3 where r3: "r3 = Inr u3"
    by (cases r3) (auto simp: w1_def Let_def)
  have rest: "process_playlists E p ds w3 = (Inr u, w')"
    using Cons.prems pf ex r dl r3 by (auto simp: w1_def Let_def)
  have d3: "downloads w3 = downloads w2 @ descriptor_downloads E p d"
    using dl r3 pf vs
    by (auto simp: descriptor_downloads_def download_audio_downloads download_video_downloads
        split: if_splits)
  show ?case
    using Cons.IH[OF rest] d3 d2 by simp
qed



lemma example_decode:
  "decode_text example_env b = (if list_ex digit7 b then None else Some b)"
  by (simp add: example_env_def)

lemma example_config_decodes: "decode_text example_env example_config = Some example_config"
  by (simp add: example_decode example_config_def)

lemma faulty_config_decodes: "decode_text example_env faulty_config = Some faulty_config"
  by (simp add: example_decode faulty_config_def)

lemma example_config_loads:
  "json_loads example_env example_config = Inr (JArr example_descriptors)"
  by (simp add: example_env_def example_config_def example_blob_def tricky_blob_def)

lemma faulty_config_loads:
  "json_loads example_env faulty_config = Inr (JArr faulty_descriptors)"
  by (simp add: example_env_def example_config_def faulty_config_def example_blob_def
      tricky_blob_def)

lemma example_descriptors_wf: "\<forall>d\<in>set example_descriptors. wf_descriptor d"
  by (simp add: example_descriptors_def wf_descriptor_def example_url_def)

lemma example_descriptor_fields:
  "map playlist_fields example_descriptors
     = [Inr (example_url, JBool False), Inr (example_url, JBool True)]"
  by (simp add: example_descriptors_def playlist_fields_def)

theorem read_json_file_descriptors_witness:
  "read_json_file example_env [''playlists.json''] (configured_world example_config)
     = (Inr (JArr example_descriptors),
        emit (Open_read [''playlists.json'']) (configured_world example_config))
 \<and> py_iter (JArr example_descriptors) = Inr example_descriptors
 \<and> map playlist_fields example_descriptors
     = [Inr (example_url, JBool False), Inr (example_url, JBool True)]
 \<and> playlist_fields (hd example_descriptors) = Inr (JStr (spec_link (hd example_descriptors)), JBool False)"
proof -
  have n: "[''playlists.json''] \<noteq> ([] :: path)" by simp
  have f: "fs_lookup (fs (configured_world example_config)) [''playlists.json'']
      = Some (File example_config)"
    by (simp add: configured_world_def)
  have h: "hd example_descriptors \<in> set example_descriptors"
    "json_path [''with_video''] (hd example_descriptors) = None"
    by (simp_all add: example_descriptors_def)
  show ?thesis
    using read_json_file_descriptors[OF n f example_config_decodes example_config_loads
        example_descriptors_wf] h
    by (simp add: example_descriptor_fields)
qed

theorem read_json_file_degrades_witness:
  "read_json_file example_env [''playlists.json''] empty_world =
     (Inr (JArr []),
      \<lparr>fs = Dir [], trace = [Open_read [''playlists.json''],
                              Print ''File playlists.json not found.'']\<rparr>)
 \<and> read_json_file example_env [''playlists.json''] (configured_world ''[{'') =
     (Inr (JArr []),
      \<lparr>fs = Dir [(''playlists.json'', File ''[{'')],
       trace = [Open_read [''playlists.json''],
                Print ''Error decoding JSON file playlists.json: Expecting value'']\<rparr>)
 \<and> read_json_file example_env [''playlists.json'', ''x''] (configured_world ''[]'') =
     (Inl NotADirectoryError,
      \<lparr>fs = Dir [(''playlists.json'', File ''[]'')],
       trace = [Open_read [''playlists.json'', ''x'']]\<rparr>)
 \<and> read_json_file example_env [''playlists.json''] (configured_world [CHR 0xFF]) =
     (Inl UnicodeDecodeError,
      \<lparr>fs = Dir [(''playlists.json'', File [CHR 0xFF])],
       trace = [Open_read [''playlists.json'']]\<rparr>)"
proof -
  have a: "\<not> path_exists (fs empty_world) [''playlists.json'']
      \<and> \<not> file_on_the_way (fs empty_world) [''playlists.json'']"
    by (simp add: path_exists_def empty_world_def)
  have b: "[''playlists.json''] \<noteq> ([] :: path)
      \<and> fs_lookup (fs (configured_world ''[{'')) [''playlists.json''] = Some (File ''[{'')
      \<and> decode_text example_env ''[{'' = Some ''[{''
      \<and> json_loads example_env ''[{'' = Inl ''Expecting value''"
    by (simp add: configured_world_def example_decode)
       (simp add: example_env_def example_blob_def example_config_def faulty_config_def
          tricky_blob_def)
  have c: "file_on_the_way (fs (configured_world ''[]'')) [''playlists.json'', ''x'']"
    by (simp add: configured_world_def)
  have d: "[''playlists.json''] \<noteq> ([] :: path)
      \<and> fs_lookup (fs (configured_world [CHR 0xFF])) [''playlists.json'']
          = Some (File [CHR 0xFF])
      \<and> decode_text example_env [CHR 0xFF] = None"
    by (simp add: configured_world_def example_decode)
  have 1: "read_json_file example_env [''playlists.json''] empty_world =
     (Inr (JArr []),
      \<lparr>fs = Dir [], trace = [Open_read [''playlists.json''],
                              Print ''File playlists.json not found.'']\<rparr>)"
    using read_json_file_degrades[where w = empty_world and file_name = "[''playlists.json'']"
        and E = example_env] a
    by (simp add: empty_world_def)
  have 2: "read_json_file example_env [''playlists.json''] (configured_world ''[{'') =
     (Inr (JArr []),
      \<lparr>fs = Dir [(''playlists.json'', File ''[{'')],
       trace = [Open_read [''playlists.json''],
                Print ''Error decoding JSON file playlists.json: Expecting value'']\<rparr>)"
    using read_json_file_degrades[where w = "configured_world ''[{''"
        and file_name = "[''playlists.json'']" and E = example_env and bytes = "''[{''"
        and content = "''[{''" and msg = "''Expecting value''"] b
    by (simp add: configured_world_def)
  have 3: "read_json_file example_env [''playlists.json'', ''x''] (configured_world ''[]'') =
     (Inl NotADirectoryError,
      \<lparr>fs = Dir [(''playlists.json'', File ''[]'')],
       trace = [Open_read [''playlists.json'', ''x'']]\<rparr>)"
    using read_json_file_degrades[where w = "configured_world ''[]''"
        and file_name = "[''playlists.json'', ''x'']" and E = example_env] c
    by (simp add: configured_world_def)
  have 4: "read_json_file example_env [''playlists.json''] (configured_world [CHR 0xFF]) =
     (Inl UnicodeDecodeError,
      \<lparr>fs = Dir [(''playlists.json'', File [CHR 0xFF])],
       trace = [Open_read [''playlists.json'']]\<rparr>)"
    using read_json_file_degrades[where w = "configured_world [CHR 0xFF]"
        and file_name = "[''playlists.json'']" and E = example_env and bytes = "[CHR 0xFF]"] d
    by (simp add: configured_world_def)
  from 1 2 3 4 show ?thesis by (simp only: simp_thms)
qed

lemma example_extracted: "extracted example_env example_url = Inr example_entries"
  using extract_fst[of example_env example_url empty_world]
  by (simp add: example_extract_pair)

lemma example_first_playlist:
  "fst (process_playlists example_env release_dir [JObj [(''link'', example_url)]] empty_world)
     = Inr ()"
  by (simp add: playlist_fields_def example_extract_pair download_audio_def ensure_folder_cases
      path_exists_def fs_makedirs_def empty_world_def emit_def Let_def)

theorem missing_link_fails_in_driver_witness:
  "read_json_file example_env [''playlists.json''] (configured_world faulty_config)
     = (Inr (JArr faulty_descriptors),
        emit (Open_read [''playlists.json'']) (configured_world faulty_config))
 \<and> process_playlists example_env release_dir faulty_descriptors empty_world
     = (Inl (KeyError ''link''),
        snd (process_playlists example_env release_dir [JObj [(''link'', example_url)]] empty_world))
 \<and> downloads (snd (process_playlists example_env release_dir
                      [JObj [(''link'', example_url)]] empty_world))
     = map (audio_attempt example_env release_dir [''music'']) example_entries"
proof -
  let ?d1 = "JObj [(''link'', example_url)]"
  let ?d2 = "JObj [(''with_video'', JBool True)]"
  let ?w1 = "snd (process_playlists example_env release_dir [?d1] empty_world)"
  have a: "[''playlists.json''] \<noteq> ([] :: path)
      \<and> fs_lookup (fs (configured_world faulty_config)) [''playlists.json''] = Some (File faulty_config)
      \<and> decode_text example_env faulty_config = Some faulty_config
      \<and> json_loads example_env faulty_config = Inr (JArr faulty_descriptors)"
    by (simp add: configured_world_def faulty_config_loads faulty_config_decodes)
  have p: "process_playlists example_env release_dir [?d1] empty_world = (Inr (), ?w1)"
    using example_first_playlist by (simp add: prod_eq_iff)
  have b: "is_obj ?d2 \<and> json_path [''link''] ?d2 = None
      \<and> process_playlists example_env release_dir [?d1] empty_world = (Inr (), ?w1)"
    using p by (simp add: is_obj_def)
  have f: "faulty_descriptors = [?d1] @ ?d2 # [?d1]"
    by (simp add: faulty_descriptors_def)
  have dd: "descriptor_downloads example_env release_dir ?d1
      = map (audio_attempt example_env release_dir [''music'']) example_entries"
    by (simp add: descriptor_downloads_def playlist_fields_def example_extracted)
  have d: "downloads ?w1 = map (audio_attempt example_env release_dir [''music'']) example_entries"
    using process_playlists_downloads[OF p] dd
    by (simp add: downloads_def empty_world_def)
  show ?thesis
    using missing_link_fails_in_driver[of "[''playlists.json'']" "configured_world faulty_config"
        faulty_config example_env faulty_config faulty_descriptors ?d2 release_dir "[?d1]"
        empty_world ?w1 "[?d1]"]
      a b d
    unfolding f[symmetric] by blast
qed








end
